theory Spec2Isabelle
  imports Complex_Main "HOL-Library.AList"
begin

section \<open>Python values and faults\<close>

text \<open>
  Quiz records are what \<^verbatim>\<open>json.loads\<close> returns on the reply of the generation
  service: dynamically typed values. An object is an association list with string keys,
  in insertion order; lookups take the first binding of a key. Python's \<^verbatim>\<open>None\<close>
  is \<open>JNull\<close>. A text is a list of characters, one \<open>char\<close> for each code point, and
  \<open>of_char\<close> gives the code point: the texts of the model are those of code points
  below 256 (Latin-1), which is what the type \<open>char\<close> holds. JSON numbers are integers
  (floating-point numbers are left out of the model).
\<close>

datatype json =
    JNull
  | JBool bool
  | JInt int
  | JStr string
  | JList "json list"
  | JDict "(string \<times> json) list"

text \<open>The exceptions the modelled code can meet. All of them are subclasses of
  \<^verbatim>\<open>Exception\<close>.\<close>

datatype py_error =
    AttributeError
  | TypeError
  | ValueError
  | OSError
  | UnicodeEncodeError
  | ZeroDivisionError

text \<open>Sequencing of fallible steps: the first fault ends the computation.\<close>

definition bnd :: "py_error + 'a \<Rightarrow> ('a \<Rightarrow> py_error + 'b) \<Rightarrow> py_error + 'b" where
  "bnd m f = (case m of Inl e \<Rightarrow> Inl e | Inr x \<Rightarrow> f x)"

text \<open>\<^verbatim>\<open>k in d\<close> and \<^verbatim>\<open>d.get(k, default)\<close> on a dict.\<close>

definition has_key :: "(string \<times> json) list \<Rightarrow> string \<Rightarrow> bool" where
  "has_key d k = (map_of d k \<noteq> None)"

definition dict_get :: "(string \<times> json) list \<Rightarrow> string \<Rightarrow> json \<Rightarrow> json" where
  "dict_get d k dflt = (case map_of d k of Some v \<Rightarrow> v | None \<Rightarrow> dflt)"

text \<open>\<^verbatim>\<open>x.get(k, default)\<close> on any value: only a dict has the method.\<close>

fun py_get :: "json \<Rightarrow> string \<Rightarrow> json \<Rightarrow> py_error + json" where
  "py_get (JDict d) k dflt = Inr (dict_get d k dflt)"
| "py_get _ k dflt = Inl AttributeError"

text \<open>\<^verbatim>\<open>len(x)\<close>: strings, lists and dicts are sized.\<close>

fun py_len :: "json \<Rightarrow> py_error + nat" where
  "py_len (JStr s) = Inr (length s)"
| "py_len (JList xs) = Inr (length xs)"
| "py_len (JDict d) = Inr (length d)"
| "py_len _ = Inl TypeError"

text \<open>\<^verbatim>\<open>for x in v\<close>: a list yields its elements, a dict its keys, a string its
  characters.\<close>

fun py_iter :: "json \<Rightarrow> py_error + json list" where
  "py_iter (JList xs) = Inr xs"
| "py_iter (JDict d) = Inr (map (\<lambda>kv. JStr (fst kv)) d)"
| "py_iter (JStr s) = Inr (map (\<lambda>c. JStr [c]) s)"
| "py_iter _ = Inl TypeError"

text \<open>Substring test, for \<^verbatim>\<open>key in s\<close> on a string \<open>s\<close>.\<close>

fun starts_with :: "string \<Rightarrow> string \<Rightarrow> bool" where
  "starts_with [] s = True"
| "starts_with (p # ps) [] = False"
| "starts_with (p # ps) (c # cs) = (p = c \<and> starts_with ps cs)"

fun is_substring :: "string \<Rightarrow> string \<Rightarrow> bool" where
  "is_substring p [] = (p = [])"
| "is_substring p (c # cs) = (starts_with p (c # cs) \<or> is_substring p cs)"

text \<open>\<^verbatim>\<open>key in x\<close> for a string key: key membership on a dict, element membership on a
  list, substring test on a string, \<^verbatim>\<open>TypeError\<close> on anything else.\<close>

fun py_contains :: "json \<Rightarrow> string \<Rightarrow> py_error + bool" where
  "py_contains (JDict d) k = Inr (has_key d k)"
| "py_contains (JList xs) k = Inr (JStr k \<in> set xs)"
| "py_contains (JStr s) k = Inr (is_substring k s)"
| "py_contains _ k = Inl TypeError"

text \<open>\<^verbatim>\<open>all(key in x for key in keys)\<close>: the generator stops at the first key that
  is absent, and a fault of a membership test ends it.\<close>

fun all_keys_in :: "json \<Rightarrow> string list \<Rightarrow> py_error + bool" where
  "all_keys_in x [] = Inr True"
| "all_keys_in x (k # ks) =
     bnd (py_contains x k) (\<lambda>b. if b then all_keys_in x ks else Inr False)"

section \<open>Schema validation (\<^verbatim>\<open>validate_quiz_structure\<close>)\<close>

record validation_result =
  is_valid :: bool
  errors :: "string list"
  warnings :: "string list"

text \<open>The loop over the required fields \<^verbatim>\<open>["topic", "difficulty"]\<close>.\<close>

fun check_required :: "(string \<times> json) list \<Rightarrow> string list \<Rightarrow> validation_result \<Rightarrow> validation_result" where
  "check_required quiz_data [] vr = vr"
| "check_required quiz_data (field # rest) vr =
     check_required quiz_data rest
       (if \<not> has_key quiz_data field
        then vr\<lparr>is_valid := False,
                errors := errors vr @ [''Missing required field: '' @ field]\<rparr>
        else vr)"

definition question_types :: "string list" where
  "question_types = [''mcq'', ''true_false'', ''matching'', ''fill_blank'']"

definition check_types :: "(string \<times> json) list \<Rightarrow> validation_result \<Rightarrow> validation_result" where
  "check_types quiz_data vr =
     (let existing_types = filter (has_key quiz_data) question_types
      in if existing_types = []
         then vr\<lparr>is_valid := False, errors := errors vr @ [''No question types found'']\<rparr>
         else vr)"

definition check_mcq :: "(string \<times> json) list \<Rightarrow> validation_result \<Rightarrow> py_error + validation_result" where
  "check_mcq quiz_data vr =
     (case map_of quiz_data ''mcq'' of
        None \<Rightarrow> Inr vr
      | Some mcq \<Rightarrow>
          bnd (all_keys_in mcq [''question'', ''options'', ''correct_answer'']) (\<lambda>complete.
            if \<not> complete
            then Inr (vr\<lparr>warnings := warnings vr @ [''MCQ missing required fields'']\<rparr>)
            else bnd (py_get mcq ''options'' (JList [])) (\<lambda>options.
                 bnd (py_len options) (\<lambda>n.
                   if n \<noteq> 4
                   then Inr (vr\<lparr>warnings := warnings vr @ [''MCQ should have exactly 4 options'']\<rparr>)
                   else Inr vr))))"

definition check_true_false :: "(string \<times> json) list \<Rightarrow> validation_result \<Rightarrow> py_error + validation_result" where
  "check_true_false quiz_data vr =
     (case map_of quiz_data ''true_false'' of
        None \<Rightarrow> Inr vr
      | Some tf \<Rightarrow>
          bnd (all_keys_in tf [''question'', ''correct_answer'']) (\<lambda>complete.
            if \<not> complete
            then Inr (vr\<lparr>warnings := warnings vr @ [''True/False question missing required fields'']\<rparr>)
            else bnd (py_get tf ''correct_answer'' JNull) (\<lambda>ans.
                   if ans \<noteq> JStr ''True'' \<and> ans \<noteq> JStr ''False''
                   then Inr (vr\<lparr>warnings := warnings vr @ [''True/False answer should be 'True' or 'False'' @ [CHR 0x27]]\<rparr>)
                   else Inr vr)))"

definition validate_quiz_structure :: "(string \<times> json) list \<Rightarrow> py_error + validation_result" where
  "validate_quiz_structure quiz_data =
     (let vr0 = \<lparr>is_valid = True, errors = [], warnings = []\<rparr>;
          vr1 = check_required quiz_data [''topic'', ''difficulty''] vr0;
          vr2 = check_types quiz_data vr1
      in bnd (check_mcq quiz_data vr2) (check_true_false quiz_data))"

section \<open>Strings and comparison\<close>

text \<open>\<^verbatim>\<open>str.lower()\<close>: of the characters below 256, the capital letters are \<open>A\<close> to
  \<open>Z\<close> (65 to 90) and the accented capitals 192 to 222 without the multiplication sign
  215; each is mapped to its small form, 32 places further. Every other character is
  kept.\<close>

definition is_upper :: "char \<Rightarrow> bool" where
  "is_upper c =
     ((65 \<le> (of_char c :: nat) \<and> (of_char c :: nat) \<le> 90) \<or>
      (192 \<le> (of_char c :: nat) \<and> (of_char c :: nat) \<le> 222 \<and> (of_char c :: nat) \<noteq> 215))"

definition lower_char :: "char \<Rightarrow> char" where
  "lower_char c = (if is_upper c then char_of (of_char c + 32 :: nat) else c)"

definition lower :: "string \<Rightarrow> string" where
  "lower s = map lower_char s"

text \<open>\<^verbatim>\<open>str.strip()\<close>: of the characters below 256, Python counts as whitespace the tab,
  line feed, vertical tab, form feed, carriage return (9 to 13), the four separators 28
  to 31, the space (32), the next-line control (133) and the no-break space (160).\<close>

definition is_space :: "char \<Rightarrow> bool" where
  "is_space c = ((9 \<le> (of_char c :: nat) \<and> (of_char c :: nat) \<le> 13) \<or>
                 (28 \<le> (of_char c :: nat) \<and> (of_char c :: nat) \<le> 32) \<or>
                 (of_char c :: nat) = 133 \<or> (of_char c :: nat) = 160)"

definition strip :: "string \<Rightarrow> string" where
  "strip s = rev (dropWhile is_space (rev (dropWhile is_space s)))"

text \<open>Decimal notation of a natural number, as \<^verbatim>\<open>str(n)\<close> and the f-strings print it.\<close>

definition digit_char :: "nat \<Rightarrow> char" where
  "digit_char d = ''0123456789'' ! d"

function dec :: "nat \<Rightarrow> string" where
  "dec n = (if n < 10 then [digit_char n] else dec (n div 10) @ [digit_char (n mod 10)])"
  by pat_completeness auto
termination
  by (relation "measure (\<lambda>n. n)") auto

declare dec.simps [simp del]

definition dec_int :: "int \<Rightarrow> string" where
  "dec_int i = (if i < 0 then ''-'' @ dec (nat (- i)) else dec (nat i))"

text \<open>\<^verbatim>\<open>x.lower()\<close> on any value: only a string has the method.\<close>

fun py_lower :: "json \<Rightarrow> py_error + string" where
  "py_lower (JStr s) = Inr (lower s)"
| "py_lower _ = Inl AttributeError"

text \<open>
  \<^verbatim>\<open>repr\<close> of a string: single quotes, unless the text holds a single quote and no
  double quote; the quote and the backslash are escaped, tab, line feed and carriage
  return are written \<^verbatim>\<open>\t\<close>, \<^verbatim>\<open>\n\<close>, \<^verbatim>\<open>\r\<close>, and the other characters that are
  not printable (below 32, 127 to 160, and the soft hyphen 173) in hexadecimal.
\<close>

definition hex_digit :: "nat \<Rightarrow> char" where
  "hex_digit d = ''0123456789abcdef'' ! d"

definition repr_char :: "char \<Rightarrow> char \<Rightarrow> string" where
  "repr_char quote c =
     (if c = quote \<or> c = CHR 0x5C then [CHR 0x5C, c]
      else if c = CHR 0x09 then [CHR 0x5C, CHR ''t'']
      else if c = CHR 0x0A then [CHR 0x5C, CHR ''n'']
      else if c = CHR 0x0D then [CHR 0x5C, CHR ''r'']
      else if of_char c < (32::nat) \<or> (127 \<le> (of_char c :: nat) \<and> (of_char c :: nat) \<le> 160) \<or>
              (of_char c :: nat) = 173
        then [CHR 0x5C, CHR ''x'', hex_digit (of_char c div 16), hex_digit (of_char c mod 16)]
      else [c])"

definition repr_str :: "string \<Rightarrow> string" where
  "repr_str s =
     (let quote = (if CHR 0x27 \<in> set s \<and> CHR 0x22 \<notin> set s then CHR 0x22 else CHR 0x27)
      in [quote] @ concat (map (repr_char quote) s) @ [quote])"

fun join :: "string \<Rightarrow> string list \<Rightarrow> string" where
  "join sep [] = []"
| "join sep [x] = x"
| "join sep (x # y # ys) = x @ sep @ join sep (y # ys)"

text \<open>\<^verbatim>\<open>repr(x)\<close> and \<^verbatim>\<open>str(x)\<close>, which is what an f-string prints for \<^verbatim>\<open>{x}\<close>.\<close>

fun py_repr :: "json \<Rightarrow> string" where
  "py_repr JNull = ''None''"
| "py_repr (JBool b) = (if b then ''True'' else ''False'')"
| "py_repr (JInt i) = dec_int i"
| "py_repr (JStr s) = repr_str s"
| "py_repr (JList xs) = ''['' @ join '', '' (map py_repr xs) @ '']''"
| "py_repr (JDict d) =
     ''{'' @ join '', '' (map (\<lambda>kv. repr_str (fst kv) @ '': '' @ py_repr (snd kv)) d) @ ''}''"

fun py_str :: "json \<Rightarrow> string" where
  "py_str (JStr s) = s"
| "py_str v = py_repr v"

text \<open>
  Python's \<^verbatim>\<open>==\<close> on values: \<^verbatim>\<open>True\<close> and \<^verbatim>\<open>False\<close> are the integers 1 and 0,
  lists are compared element by element, dicts have to bind the same keys to equal values,
  whatever the order; values of different kinds are different.
\<close>

fun py_eq :: "json \<Rightarrow> json \<Rightarrow> bool"
  and py_eq_list :: "json list \<Rightarrow> json list \<Rightarrow> bool"
  and py_eq_bound :: "string \<Rightarrow> json \<Rightarrow> (string \<times> json) list \<Rightarrow> bool"
  and py_eq_sub :: "(string \<times> json) list \<Rightarrow> (string \<times> json) list \<Rightarrow> bool"
where
  "py_eq JNull y = (y = JNull)"
| "py_eq (JBool a) y =
     (case y of JBool b \<Rightarrow> a = b | JInt n \<Rightarrow> n = (if a then 1 else 0) | _ \<Rightarrow> False)"
| "py_eq (JInt m) y =
     (case y of JBool b \<Rightarrow> m = (if b then 1 else 0) | JInt n \<Rightarrow> m = n | _ \<Rightarrow> False)"
| "py_eq (JStr s) y = (y = JStr s)"
| "py_eq (JList xs) (JList ys) = py_eq_list xs ys"
| "py_eq (JList xs) _ = False"
| "py_eq (JDict d) (JDict e) = (length d = length e \<and> py_eq_sub d e)"
| "py_eq (JDict d) _ = False"
| "py_eq_list [] ys = (ys = [])"
| "py_eq_list (x # xs) [] = False"
| "py_eq_list (x # xs) (y # ys) = (py_eq x y \<and> py_eq_list xs ys)"
| "py_eq_bound k v [] = False"
| "py_eq_bound k v (kw # e) = (if fst kw = k then py_eq v (snd kw) else py_eq_bound k v e)"
| "py_eq_sub [] e = True"
| "py_eq_sub (kv # d) e = (py_eq_bound (fst kv) (snd kv) e \<and> py_eq_sub d e)"

text \<open>\<^verbatim>\<open>d.get(key)\<close> where the key is any value: a value that is not a dict has no
  such method, a list or a dict as key is unhashable, and a key that is not a string is
  bound by no object (\<^verbatim>\<open>None\<close> is returned).\<close>

fun py_get_key :: "json \<Rightarrow> json \<Rightarrow> py_error + json" where
  "py_get_key (JDict d) (JStr k) = Inr (dict_get d k JNull)"
| "py_get_key (JDict d) (JList xs) = Inl TypeError"
| "py_get_key (JDict d) (JDict e) = Inl TypeError"
| "py_get_key (JDict d) _ = Inr JNull"
| "py_get_key _ _ = Inl AttributeError"

section \<open>Answer scoring (\<^verbatim>\<open>calculate_quiz_score\<close>)\<close>

text \<open>\<^verbatim>\<open>a / b\<close> on numbers: a zero divisor raises \<^verbatim>\<open>ZeroDivisionError\<close>.\<close>

definition py_div :: "real \<Rightarrow> real \<Rightarrow> py_error + real" where
  "py_div a b = (if b = 0 then Inl ZeroDivisionError else Inr (a / b))"

text \<open>The score dict has five fixed keys; the entries of \<open>detailed_results\<close> are the
  dicts the code stores. The percentage is the exact quotient (the code computes it in
  floating point, which agrees on 0, 25, 50, 75 and 100).\<close>

record score_result =
  total_questions :: nat
  correct_answers :: nat
  score_percentage :: real
  detailed_results :: "(string \<times> json) list"
  feedback :: "string list"

definition correct_entry :: "string \<Rightarrow> json" where
  "correct_entry msg = JDict [(''correct'', JBool True), (''feedback'', JStr msg)]"

definition incorrect_entry :: "string \<Rightarrow> json \<Rightarrow> json" where
  "incorrect_entry msg expl =
     JDict [(''correct'', JBool False), (''feedback'', JStr msg), (''explanation'', expl)]"

definition record_correct :: "string \<Rightarrow> string \<Rightarrow> score_result \<Rightarrow> score_result" where
  "record_correct kind msg sr =
     sr\<lparr>correct_answers := correct_answers sr + 1,
        detailed_results := AList.update kind (correct_entry msg) (detailed_results sr)\<rparr>"

definition record_incorrect :: "string \<Rightarrow> string \<Rightarrow> json \<Rightarrow> score_result \<Rightarrow> score_result" where
  "record_incorrect kind msg expl sr =
     sr\<lparr>detailed_results := AList.update kind (incorrect_entry msg expl) (detailed_results sr)\<rparr>"

text \<open>The three text questions. \<^verbatim>\<open>.lower()\<close> exists on strings only, so a submitted
  or stored answer that is not a string ends the call with \<^verbatim>\<open>AttributeError\<close>; the
  submitted answer is lowered first.\<close>

definition score_mcq :: "(string \<times> json) list \<Rightarrow> (string \<times> json) list \<Rightarrow> score_result \<Rightarrow> py_error + score_result" where
  "score_mcq answers quiz_data sr0 =
     (case map_of quiz_data ''mcq'' of
        None \<Rightarrow> Inr sr0
      | Some mcq \<Rightarrow>
          let sr = sr0\<lparr>total_questions := total_questions sr0 + 1\<rparr>;
              user_answer = dict_get answers ''mcq'' (JStr [])
          in bnd (py_get mcq ''correct_answer'' (JStr [])) (\<lambda>correct_answer.
             bnd (py_lower user_answer) (\<lambda>u.
             bnd (py_lower correct_answer) (\<lambda>c.
               if u = c
               then Inr (record_correct ''mcq'' ''Correct!'' sr)
               else bnd (py_get mcq ''explanation'' (JStr [])) (\<lambda>expl.
                 Inr (record_incorrect ''mcq''
                        (''Incorrect. The correct answer is '' @ py_str correct_answer @ ''.'')
                        expl sr))))))"

definition score_true_false :: "(string \<times> json) list \<Rightarrow> (string \<times> json) list \<Rightarrow> score_result \<Rightarrow> py_error + score_result" where
  "score_true_false answers quiz_data sr0 =
     (case map_of quiz_data ''true_false'' of
        None \<Rightarrow> Inr sr0
      | Some tf \<Rightarrow>
          let sr = sr0\<lparr>total_questions := total_questions sr0 + 1\<rparr>;
              user_answer = dict_get answers ''true_false'' (JStr [])
          in bnd (py_get tf ''correct_answer'' (JStr [])) (\<lambda>correct_answer.
             bnd (py_lower user_answer) (\<lambda>u.
             bnd (py_lower correct_answer) (\<lambda>c.
               if u = c
               then Inr (record_correct ''true_false'' ''Correct!'' sr)
               else bnd (py_get tf ''explanation'' (JStr [])) (\<lambda>expl.
                 Inr (record_incorrect ''true_false''
                        (''Incorrect. The correct answer is '' @ py_str correct_answer @ ''.'')
                        expl sr))))))"

definition score_fill_blank :: "(string \<times> json) list \<Rightarrow> (string \<times> json) list \<Rightarrow> score_result \<Rightarrow> py_error + score_result" where
  "score_fill_blank answers quiz_data sr0 =
     (case map_of quiz_data ''fill_blank'' of
        None \<Rightarrow> Inr sr0
      | Some fill \<Rightarrow>
          let sr = sr0\<lparr>total_questions := total_questions sr0 + 1\<rparr>;
              user_answer = dict_get answers ''fill_blank'' (JStr [])
          in bnd (py_get fill ''correct_answer'' (JStr [])) (\<lambda>correct_answer.
             bnd (py_lower user_answer) (\<lambda>u.
             bnd (py_lower correct_answer) (\<lambda>c.
               if strip u = strip c
               then Inr (record_correct ''fill_blank'' ''Correct!'' sr)
               else bnd (py_get fill ''explanation'' (JStr [])) (\<lambda>expl.
                 Inr (record_incorrect ''fill_blank''
                        (''Incorrect. The correct answer is '' @ [CHR 0x27] @
                         py_str correct_answer @ [CHR 0x27] @ ''.'')
                        expl sr))))))"

text \<open>One pair of a matching question: the comparison
  \<^verbatim>\<open>user_answers.get(term) == pair.get("definition", "")\<close>.\<close>

definition pair_match :: "json \<Rightarrow> json \<Rightarrow> py_error + bool" where
  "pair_match user_answers pair =
     bnd (py_get pair ''term'' (JStr [])) (\<lambda>term.
     bnd (py_get_key user_answers term) (\<lambda>submitted.
     bnd (py_get pair ''definition'' (JStr [])) (\<lambda>definition.
       Inr (py_eq submitted definition))))"

text \<open>The loop over the pairs, with the counter \<open>correct_matches\<close>.\<close>

fun count_matches :: "json \<Rightarrow> json list \<Rightarrow> nat \<Rightarrow> py_error + nat" where
  "count_matches user_answers [] correct_matches = Inr correct_matches"
| "count_matches user_answers (pair # rest) correct_matches =
     bnd (pair_match user_answers pair) (\<lambda>hit.
       count_matches user_answers rest
         (if hit then correct_matches + 1 else correct_matches))"

definition score_matching :: "(string \<times> json) list \<Rightarrow> (string \<times> json) list \<Rightarrow> score_result \<Rightarrow> py_error + score_result" where
  "score_matching answers quiz_data sr0 =
     (case map_of quiz_data ''matching'' of
        None \<Rightarrow> Inr sr0
      | Some matching \<Rightarrow>
          let sr = sr0\<lparr>total_questions := total_questions sr0 + 1\<rparr>;
              user_answers = dict_get answers ''matching'' (JDict [])
          in bnd (py_get matching ''pairs'' (JList [])) (\<lambda>pairs.
             bnd (py_len pairs) (\<lambda>total_pairs.
             bnd (py_iter pairs) (\<lambda>items.
             bnd (count_matches user_answers items 0) (\<lambda>correct_matches.
               if correct_matches = total_pairs
               then Inr (record_correct ''matching'' ''Perfect matching!'' sr)
               else bnd (py_get matching ''explanation'' (JStr [])) (\<lambda>expl.
                 Inr (record_incorrect ''matching''
                        (''Partially correct. You got '' @ dec correct_matches @ ''/'' @
                         dec total_pairs @ '' matches right.'') expl sr)))))))"

definition percentage :: "score_result \<Rightarrow> py_error + score_result" where
  "percentage sr =
     (if total_questions sr > 0
      then bnd (py_div (real (correct_answers sr)) (real (total_questions sr))) (\<lambda>quotient.
             Inr (sr\<lparr>score_percentage := quotient * 100\<rparr>))
      else Inr sr)"

definition overall_feedback :: "score_result \<Rightarrow> score_result" where
  "overall_feedback sr =
     sr\<lparr>feedback := feedback sr @
        [if score_percentage sr \<ge> 90 then ''Excellent! You have a strong understanding of this topic.''
         else if score_percentage sr \<ge> 70 then ''Good job! You understand most of the concepts.''
         else if score_percentage sr \<ge> 50 then ''Fair performance. Consider reviewing the material.''
         else ''You may need to review this topic more thoroughly.'']\<rparr>"

definition calculate_quiz_score :: "(string \<times> json) list \<Rightarrow> (string \<times> json) list \<Rightarrow> py_error + score_result" where
  "calculate_quiz_score answers quiz_data =
     (let sr0 = \<lparr>total_questions = 0, correct_answers = 0, score_percentage = 0,
                 detailed_results = [], feedback = []\<rparr>
      in bnd (score_mcq answers quiz_data sr0) (\<lambda>sr1.
         bnd (score_true_false answers quiz_data sr1) (\<lambda>sr2.
         bnd (score_matching answers quiz_data sr2) (\<lambda>sr3.
         bnd (score_fill_blank answers quiz_data sr3) (\<lambda>sr4.
         bnd (percentage sr4) (\<lambda>sr5.
           Inr (overall_feedback sr5)))))))"

subsection \<open>Reading a score\<close>

text \<open>\<open>verdict r kind\<close> is \<^verbatim>\<open>r["detailed_results"][kind]["correct"]\<close> and
  \<open>entry_feedback r kind\<close> is \<^verbatim>\<open>r["detailed_results"][kind]["feedback"]\<close>, when the
  entry is there; \<open>credit\<close> is 1 for a question marked correct and 0 otherwise.\<close>

definition verdict :: "score_result \<Rightarrow> string \<Rightarrow> bool option" where
  "verdict r kind =
     (case map_of (detailed_results r) kind of
        Some (JDict entry) \<Rightarrow>
          (case map_of entry ''correct'' of Some (JBool b) \<Rightarrow> Some b | _ \<Rightarrow> None)
      | _ \<Rightarrow> None)"

definition entry_feedback :: "score_result \<Rightarrow> string \<Rightarrow> json option" where
  "entry_feedback r kind =
     (case map_of (detailed_results r) kind of
        Some (JDict entry) \<Rightarrow> map_of entry ''feedback''
      | _ \<Rightarrow> None)"

definition credit :: "score_result \<Rightarrow> string \<Rightarrow> nat" where
  "credit r kind = (if verdict r kind = Some True then 1 else 0)"

text \<open>A pair of a matching question is matched by the submitted answers when the
  comparison of the code runs without a fault and is true.\<close>

definition matched :: "json \<Rightarrow> json \<Rightarrow> bool" where
  "matched user_answers pair = (pair_match user_answers pair = Inr True)"

text \<open>Equality of two texts up to the case of their letters, stated without
  \<open>lower\<close>: the texts have the same length and, place by place, the same character or
  a capital letter and its small form.\<close>

definition same_letter :: "char \<Rightarrow> char \<Rightarrow> bool" where
  "same_letter a b =
     (a = b \<or> (is_upper a \<and> (of_char b :: nat) = of_char a + 32) \<or>
              (is_upper b \<and> (of_char a :: nat) = of_char b + 32))"

definition same_ignoring_case :: "string \<Rightarrow> string \<Rightarrow> bool" where
  "same_ignoring_case s t = list_all2 same_letter s t"

text \<open>The question counter after one more question.\<close>

definition bump :: "score_result \<Rightarrow> score_result" where
  "bump sr = sr\<lparr>total_questions := total_questions sr + 1\<rparr>"

definition step_effect :: "string \<Rightarrow> score_result \<Rightarrow> score_result \<Rightarrow> bool" where
  "step_effect kind sr sr' =
     (sr' = sr \<or> (\<exists>msg. sr' = record_correct kind msg (bump sr)) \<or>
      (\<exists>msg expl. sr' = record_incorrect kind msg expl (bump sr)))"

text \<open>No question of any of the four kinds.\<close>

definition no_variant :: "(string \<times> json) list \<Rightarrow> bool" where
  "no_variant quiz_data = (\<not> has_key quiz_data ''mcq'' \<and> \<not> has_key quiz_data ''true_false'' \<and>
     \<not> has_key quiz_data ''matching'' \<and> \<not> has_key quiz_data ''fill_blank'')"

text \<open>The error entries a record earns: one for each required field it lacks, one when
  it has no question.\<close>

definition expected_errors :: "(string \<times> json) list \<Rightarrow> string list" where
  "expected_errors quiz_data =
     (if has_key quiz_data ''topic'' then [] else [''Missing required field: topic'']) @
     (if has_key quiz_data ''difficulty'' then [] else [''Missing required field: difficulty'']) @
     (if no_variant quiz_data then [''No question types found''] else [])"

text \<open>The shape of the questions that validation looks into: an \<open>mcq\<close> is an object
  whose \<open>options\<close>, when it has them, are a list, and a \<open>true_false\<close> is an object.\<close>

definition checked_questions_are_objects :: "(string \<times> json) list \<Rightarrow> bool" where
  "checked_questions_are_objects quiz_data =
     ((case map_of quiz_data ''mcq'' of
         None \<Rightarrow> True
       | Some (JDict mcq) \<Rightarrow>
           (case dict_get mcq ''options'' (JList []) of JList options \<Rightarrow> True | _ \<Rightarrow> False)
       | Some _ \<Rightarrow> False) \<and>
      (case map_of quiz_data ''true_false'' of
         None \<Rightarrow> True
       | Some (JDict tf) \<Rightarrow> True
       | Some _ \<Rightarrow> False))"

text \<open>The warnings a record earns when the questions looked into are objects. An \<open>mcq\<close>
  that lacks one of its three required fields earns the warning of missing fields, and
  only an \<open>mcq\<close> that has them all earns the warning about the number of its options; a
  \<open>true_false\<close> earns the warning of missing fields, or else the warning about an
  answer that is neither \<open>True\<close> nor \<open>False\<close>.\<close>

definition mcq_warnings :: "(string \<times> json) list \<Rightarrow> string list" where
  "mcq_warnings quiz_data =
     (case map_of quiz_data ''mcq'' of
        Some (JDict mcq) \<Rightarrow>
          if \<not> (has_key mcq ''question'' \<and> has_key mcq ''options'' \<and>
                  has_key mcq ''correct_answer'')
          then [''MCQ missing required fields'']
          else (case dict_get mcq ''options'' (JList []) of
                  JList options \<Rightarrow>
                    if length options \<noteq> 4 then [''MCQ should have exactly 4 options''] else []
                | _ \<Rightarrow> [])
      | _ \<Rightarrow> [])"

definition true_false_warnings :: "(string \<times> json) list \<Rightarrow> string list" where
  "true_false_warnings quiz_data =
     (case map_of quiz_data ''true_false'' of
        Some (JDict tf) \<Rightarrow>
          if \<not> (has_key tf ''question'' \<and> has_key tf ''correct_answer'')
          then [''True/False question missing required fields'']
          else if dict_get tf ''correct_answer'' JNull \<noteq> JStr ''True'' \<and>
                  dict_get tf ''correct_answer'' JNull \<noteq> JStr ''False''
          then [''True/False answer should be 'True' or 'False'' @ [CHR 0x27]]
          else []
      | _ \<Rightarrow> [])"

definition expected_warnings :: "(string \<times> json) list \<Rightarrow> string list" where
  "expected_warnings quiz_data = mcq_warnings quiz_data @ true_false_warnings quiz_data"

section \<open>Quiz generation (\<^verbatim>\<open>generate_quiz_questions\<close>, \<^verbatim>\<open>generate_quiz_batch\<close>)\<close>

text \<open>
  The exceptions met while a quiz is requested, each with the text \<^verbatim>\<open>str(e)\<close>:
  \<^verbatim>\<open>json.JSONDecodeError\<close> and any other subclass of \<^verbatim>\<open>Exception\<close> (a network
  fault, a missing key in the response, a \<^verbatim>\<open>TypeError\<close>). Interrupts of the process,
  which are not subclasses of \<^verbatim>\<open>Exception\<close>, are not outcomes of the model.
\<close>

datatype exn = JSONDecodeError string | OtherException string

fun exn_str :: "exn \<Rightarrow> string" where
  "exn_str (JSONDecodeError msg) = msg"
| "exn_str (OtherException msg) = msg"

text \<open>
  The generation service and the JSON parser are outside the program and are parameters
  of the model. One call of the service, from \<^verbatim>\<open>openai.ChatCompletion.create\<close> to the
  read of \<^verbatim>\<open>response["choices"][0]["message"]["content"]\<close>, takes the two prompts and
  raises, or yields the content of the reply: a text, or \<^verbatim>\<open>None\<close> when the reply holds
  no text. \<^verbatim>\<open>json.loads\<close> takes a text and raises or yields a value.
\<close>

type_synonym service = "string \<Rightarrow> string \<Rightarrow> exn + string option"

type_synonym loads = "string \<Rightarrow> exn + json"

definition system_prompt :: string where
  "system_prompt =
     ''You are an expert quiz creator and educator. Based on the provided text, generate a comprehensive quiz with the following question types:'' @ [CHR 0x0A] @
     [CHR 0x0A] @
     ''1. Multiple Choice Question (MCQ) with 4 options'' @ [CHR 0x0A] @
     ''2. True/False question'' @ [CHR 0x0A] @
     ''3. Matching question (if applicable)'' @ [CHR 0x0A] @
     ''4. Fill-in-the-blank question (if applicable)'' @ [CHR 0x0A] @
     [CHR 0x0A] @
     ''Ensure all questions are relevant to the provided content and appropriate for the specified difficulty level.'' @ [CHR 0x0A] @
     ''Respond in valid JSON format with the following structure:'' @ [CHR 0x0A] @
     ''{'' @ [CHR 0x0A] @
     ''  '' @ [CHR 0x22] @ ''topic'' @ [CHR 0x22] @ '': '' @ [CHR 0x22] @ ''specific topic from the content'' @ [CHR 0x22] @ '','' @ [CHR 0x0A] @
     ''  '' @ [CHR 0x22] @ ''difficulty'' @ [CHR 0x22] @ '': '' @ [CHR 0x22] @ ''Beginner/Intermediate/Expert'' @ [CHR 0x22] @ '','' @ [CHR 0x0A] @
     ''  '' @ [CHR 0x22] @ ''mcq'' @ [CHR 0x22] @ '': {'' @ [CHR 0x0A] @
     ''    '' @ [CHR 0x22] @ ''question'' @ [CHR 0x22] @ '': '' @ [CHR 0x22] @ ''question text'' @ [CHR 0x22] @ '','' @ [CHR 0x0A] @
     ''    '' @ [CHR 0x22] @ ''options'' @ [CHR 0x22] @ '': ['' @ [CHR 0x22] @ ''option a'' @ [CHR 0x22] @ '', '' @ [CHR 0x22] @ ''option b'' @ [CHR 0x22] @ '', '' @ [CHR 0x22] @ ''option c'' @ [CHR 0x22] @ '', '' @ [CHR 0x22] @ ''option d'' @ [CHR 0x22] @ ''],'' @ [CHR 0x0A] @
     ''    '' @ [CHR 0x22] @ ''correct_answer'' @ [CHR 0x22] @ '': '' @ [CHR 0x22] @ ''option letter (a/b/c/d)'' @ [CHR 0x22] @ '','' @ [CHR 0x0A] @
     ''    '' @ [CHR 0x22] @ ''explanation'' @ [CHR 0x22] @ '': '' @ [CHR 0x22] @ ''brief explanation of the correct answer'' @ [CHR 0x22] @ [CHR 0x0A] @
     ''  },'' @ [CHR 0x0A] @
     ''  '' @ [CHR 0x22] @ ''true_false'' @ [CHR 0x22] @ '': {'' @ [CHR 0x0A] @
     ''    '' @ [CHR 0x22] @ ''question'' @ [CHR 0x22] @ '': '' @ [CHR 0x22] @ ''question text'' @ [CHR 0x22] @ '','' @ [CHR 0x0A] @
     ''    '' @ [CHR 0x22] @ ''correct_answer'' @ [CHR 0x22] @ '': '' @ [CHR 0x22] @ ''True/False'' @ [CHR 0x22] @ '','' @ [CHR 0x0A] @
     ''    '' @ [CHR 0x22] @ ''explanation'' @ [CHR 0x22] @ '': '' @ [CHR 0x22] @ ''brief explanation'' @ [CHR 0x22] @ [CHR 0x0A] @
     ''  },'' @ [CHR 0x0A] @
     ''  '' @ [CHR 0x22] @ ''matching'' @ [CHR 0x22] @ '': {'' @ [CHR 0x0A] @
     ''    '' @ [CHR 0x22] @ ''question'' @ [CHR 0x22] @ '': '' @ [CHR 0x22] @ ''matching instruction'' @ [CHR 0x22] @ '','' @ [CHR 0x0A] @
     ''    '' @ [CHR 0x22] @ ''pairs'' @ [CHR 0x22] @ '': [{'' @ [CHR 0x22] @ ''term'' @ [CHR 0x22] @ '': '' @ [CHR 0x22] @ ''term1'' @ [CHR 0x22] @ '', '' @ [CHR 0x22] @ ''definition'' @ [CHR 0x22] @ '': '' @ [CHR 0x22] @ ''definition1'' @ [CHR 0x22] @ ''}, ...],'' @ [CHR 0x0A] @
     ''    '' @ [CHR 0x22] @ ''explanation'' @ [CHR 0x22] @ '': '' @ [CHR 0x22] @ ''brief explanation'' @ [CHR 0x22] @ [CHR 0x0A] @
     ''  },'' @ [CHR 0x0A] @
     ''  '' @ [CHR 0x22] @ ''fill_blank'' @ [CHR 0x22] @ '': {'' @ [CHR 0x0A] @
     ''    '' @ [CHR 0x22] @ ''question'' @ [CHR 0x22] @ '': '' @ [CHR 0x22] @ ''question with ___ for blank'' @ [CHR 0x22] @ '','' @ [CHR 0x0A] @
     ''    '' @ [CHR 0x22] @ ''correct_answer'' @ [CHR 0x22] @ '': '' @ [CHR 0x22] @ ''correct answer'' @ [CHR 0x22] @ '','' @ [CHR 0x0A] @
     ''    '' @ [CHR 0x22] @ ''explanation'' @ [CHR 0x22] @ '': '' @ [CHR 0x22] @ ''brief explanation'' @ [CHR 0x22] @ [CHR 0x0A] @
     ''  }'' @ [CHR 0x0A] @
     ''}''"

definition user_prompt :: "string \<Rightarrow> string \<Rightarrow> string \<Rightarrow> string" where
  "user_prompt chunk topic difficulty =
     ''Text Chunk:'' @ [CHR 0x0A] @ chunk @ [CHR 0x0A, CHR 0x0A] @
     ''Topic: '' @ topic @ [CHR 0x0A] @
     ''Difficulty: '' @ difficulty @ [CHR 0x0A, CHR 0x0A] @
     ''Generate a comprehensive quiz based on this content. Focus on practical knowledge that would be useful for learners.''"

text \<open>The inner \<^verbatim>\<open>try\<close>: a reply that does not parse becomes a record with the raw text
  and the marker; any other exception of the parser goes on.\<close>

definition parse_reply :: "loads \<Rightarrow> string \<Rightarrow> exn + json" where
  "parse_reply loads quiz_content =
     (case loads quiz_content of
        Inr quiz_data \<Rightarrow> Inr quiz_data
      | Inl (JSONDecodeError msg) \<Rightarrow>
          Inr (JDict [(''raw_content'', JStr quiz_content), (''error'', JStr ''Failed to parse JSON'')])
      | Inl (OtherException msg) \<Rightarrow> Inl (OtherException msg))"

text \<open>The body of the outer \<^verbatim>\<open>try\<close>. \<^verbatim>\<open>json.loads(None)\<close> raises a
  \<^verbatim>\<open>TypeError\<close>.\<close>

definition request_quiz :: "service \<Rightarrow> loads \<Rightarrow> string \<Rightarrow> string \<Rightarrow> string \<Rightarrow> exn + json" where
  "request_quiz svc loads chunk topic difficulty =
     (case svc system_prompt (user_prompt chunk topic difficulty) of
        Inl e \<Rightarrow> Inl e
      | Inr None \<Rightarrow>
          Inl (OtherException ''the JSON object must be str, bytes or bytearray, not NoneType'')
      | Inr (Some quiz_content) \<Rightarrow> parse_reply loads quiz_content)"

text \<open>The function: \<^verbatim>\<open>except Exception as e\<close> turns every exception of the body into
  an error record. The result \<open>Inl e\<close> would be an exception that leaves the function.\<close>

definition generate_quiz_questions :: "service \<Rightarrow> loads \<Rightarrow> string \<Rightarrow> string \<Rightarrow> string \<Rightarrow> exn + json" where
  "generate_quiz_questions svc loads chunk topic difficulty =
     (case request_quiz svc loads chunk topic difficulty of
        Inr quiz_data \<Rightarrow> Inr quiz_data
      | Inl e \<Rightarrow> Inr (JDict [(''error'', JStr (''Failed to generate quiz: '' @ exn_str e))]))"

text \<open>The truth value of a value, and \<^verbatim>\<open>isinstance(x, dict)\<close>.\<close>

fun truthy :: "json \<Rightarrow> bool" where
  "truthy JNull = False"
| "truthy (JBool b) = b"
| "truthy (JInt i) = (i \<noteq> 0)"
| "truthy (JStr s) = (s \<noteq> [])"
| "truthy (JList xs) = (xs \<noteq> [])"
| "truthy (JDict d) = (d \<noteq> [])"

fun is_dict :: "json \<Rightarrow> bool" where
  "is_dict (JDict d) = True"
| "is_dict _ = False"

fun is_list :: "json \<Rightarrow> bool" where
  "is_list (JList xs) = True"
| "is_list _ = False"

text \<open>\<^verbatim>\<open>chunk[:200] + "..." if len(chunk) > 200 else chunk\<close>\<close>

definition chunk_preview :: "string \<Rightarrow> string" where
  "chunk_preview chunk = (if length chunk > 200 then take 200 chunk @ ''...'' else chunk)"

text \<open>What one round of the loop appends for the quiz it got: the quiz with its chunk
  index and preview, or the placeholder of a failed generation. An assignment to a key
  of a dict replaces the value in place or adds the key at the end.\<close>

definition batch_entry :: "nat \<Rightarrow> string \<Rightarrow> string \<Rightarrow> string \<Rightarrow> json \<Rightarrow> json" where
  "batch_entry i chunk topic difficulty quiz =
     (case quiz of
        JDict d \<Rightarrow>
          if truthy quiz \<and> is_dict quiz \<and> \<not> has_key d ''error''
          then JDict (AList.update ''chunk_preview'' (JStr (chunk_preview chunk))
                       (AList.update ''chunk_index'' (JInt (int i)) d))
          else JDict [(''chunk_index'', JInt (int i)),
                      (''chunk_preview'', JStr (chunk_preview chunk)),
                      (''topic'', JStr topic),
                      (''difficulty'', JStr difficulty),
                      (''error'', JStr ''Quiz generation failed for this chunk'')]
      | _ \<Rightarrow>
          JDict [(''chunk_index'', JInt (int i)),
                 (''chunk_preview'', JStr (chunk_preview chunk)),
                 (''topic'', JStr topic),
                 (''difficulty'', JStr difficulty),
                 (''error'', JStr ''Quiz generation failed for this chunk'')])"

text \<open>\<^verbatim>\<open>topics[i] if i < len(topics) else "General"\<close> and
  \<^verbatim>\<open>difficulties[i] if i < len(difficulties) else "Intermediate"\<close>\<close>

definition round_topic :: "string list \<Rightarrow> nat \<Rightarrow> string" where
  "round_topic topics i = (if i < length topics then topics ! i else ''General'')"

definition round_difficulty :: "string list \<Rightarrow> nat \<Rightarrow> string" where
  "round_difficulty difficulties i =
     (if i < length difficulties then difficulties ! i else ''Intermediate'')"

text \<open>The loop \<^verbatim>\<open>for i, chunk in enumerate(chunks)\<close>, with the list \<open>quizzes\<close> built so
  far. The service is called once in each round; \<open>svc i\<close> is its behaviour at the call
  of round \<open>i\<close>.\<close>

fun batch_loop :: "(nat \<Rightarrow> service) \<Rightarrow> loads \<Rightarrow> string list \<Rightarrow> string list \<Rightarrow> nat \<Rightarrow> string list \<Rightarrow> json list \<Rightarrow> exn + json list" where
  "batch_loop svc loads topics difficulties i [] quizzes = Inr quizzes"
| "batch_loop svc loads topics difficulties i (chunk # rest) quizzes =
     (let topic = round_topic topics i;
          difficulty = round_difficulty difficulties i
      in case generate_quiz_questions (svc i) loads chunk topic difficulty of
           Inl e \<Rightarrow> Inl e
         | Inr quiz \<Rightarrow>
             batch_loop svc loads topics difficulties (i + 1) rest
               (quizzes @ [batch_entry i chunk topic difficulty quiz]))"

definition generate_quiz_batch :: "(nat \<Rightarrow> service) \<Rightarrow> loads \<Rightarrow> string list \<Rightarrow> string list option \<Rightarrow> string list option \<Rightarrow> exn + json list" where
  "generate_quiz_batch svc loads chunks topics difficulties =
     (let topics = (case topics of None \<Rightarrow> replicate (length chunks) ''General'' | Some ts \<Rightarrow> ts);
          difficulties = (case difficulties of
                            None \<Rightarrow> replicate (length chunks) ''Intermediate''
                          | Some ds \<Rightarrow> ds)
      in batch_loop svc loads topics difficulties 0 chunks [])"

text \<open>The topic and the difficulty a chunk is to be processed with, as the specification
  words it: the entry of its index, or the default when the sequence is absent or too
  short.\<close>

definition topic_for :: "string list option \<Rightarrow> nat \<Rightarrow> string" where
  "topic_for topics i =
     (case topics of None \<Rightarrow> ''General''
      | Some ts \<Rightarrow> if i < length ts then ts ! i else ''General'')"

definition difficulty_for :: "string list option \<Rightarrow> nat \<Rightarrow> string" where
  "difficulty_for difficulties i =
     (case difficulties of None \<Rightarrow> ''Intermediate''
      | Some ds \<Rightarrow> if i < length ds then ds ! i else ''Intermediate'')"

section \<open>Export (\<^verbatim>\<open>export_quiz_to_json\<close>, \<^verbatim>\<open>export_quiz_to_markdown\<close>,
  \<^verbatim>\<open>create_quiz_package\<close>)\<close>

text \<open>The files are written in UTF-8. The contents of a report are given as the bytes
  that the writes put into the file one after the other: a character below 128 is one
  byte, a character from 128 to 255 two bytes. \<open>written v\<close> is what an f-string writes
  for \<^verbatim>\<open>{v}\<close>. \<^verbatim>\<open>chr(n)\<close> raises \<^verbatim>\<open>ValueError\<close> beyond the last code point, and the
  write of a surrogate raises \<^verbatim>\<open>UnicodeEncodeError\<close>.\<close>

definition nl :: string where
  "nl = [CHR 0x0A]"

definition utf8_char :: "char \<Rightarrow> string" where
  "utf8_char c =
     (if (of_char c :: nat) < 128 then [c]
      else [char_of (0xC0 + (of_char c :: nat) div 64), char_of (0x80 + (of_char c :: nat) mod 64)])"

definition utf8 :: "string \<Rightarrow> string" where
  "utf8 s = concat (map utf8_char s)"

definition written :: "json \<Rightarrow> string" where
  "written v = utf8 (py_str v)"

definition chr_utf8 :: "nat \<Rightarrow> py_error + string" where
  "chr_utf8 n =
     (if n < 0x80 then Inr [char_of n]
      else if n < 0x800 then Inr [char_of (0xC0 + n div 64), char_of (0x80 + n mod 64)]
      else if 0xD800 \<le> n \<and> n < 0xE000 then Inl UnicodeEncodeError
      else if n < 0x10000 then
        Inr [char_of (0xE0 + n div 4096), char_of (0x80 + n div 64 mod 64),
             char_of (0x80 + n mod 64)]
      else if n < 0x110000 then
        Inr [char_of (0xF0 + n div 262144), char_of (0x80 + n div 4096 mod 64),
             char_of (0x80 + n div 64 mod 64), char_of (0x80 + n mod 64)]
      else Inl ValueError)"

text \<open>The loop \<^verbatim>\<open>for j, option in enumerate(options)\<close>: one line for each option, with the
  letter \<^verbatim>\<open>chr(97+j)\<close>.\<close>

fun options_text :: "nat \<Rightarrow> json list \<Rightarrow> py_error + string" where
  "options_text j [] = Inr []"
| "options_text j (option # rest) =
     bnd (chr_utf8 (97 + j)) (\<lambda>letter.
     bnd (options_text (j + 1) rest) (\<lambda>more.
       Inr (letter @ '') '' @ written option @ nl @ more)))"

text \<open>The loop over the pairs: one line for each pair that is a dict, with the arrow
  (U+2192, three bytes).\<close>

fun pairs_text :: "json list \<Rightarrow> string" where
  "pairs_text [] = []"
| "pairs_text (JDict pair # rest) =
     ''- '' @ written (dict_get pair ''term'' (JStr ''N/A'')) @
     [CHR 0x20, CHR 0xE2, CHR 0x86, CHR 0x92, CHR 0x20] @
     written (dict_get pair ''definition'' (JStr ''N/A'')) @ nl @ pairs_text rest"
| "pairs_text (_ # rest) = pairs_text rest"

text \<open>The four blocks of a record, each written when the key is there and bound to a
  dict.\<close>

definition mcq_text :: "(string \<times> json) list \<Rightarrow> py_error + string" where
  "mcq_text quiz =
     (case map_of quiz ''mcq'' of
        Some (JDict mcq) \<Rightarrow>
          bnd (case dict_get mcq ''options'' (JList []) of
                 JList options \<Rightarrow> options_text 0 options
               | _ \<Rightarrow> Inr []) (\<lambda>lines.
            Inr (''### 1. Multiple Choice Question'' @ nl @
                 written (dict_get mcq ''question'' (JStr ''N/A'')) @ nl @ nl @
                 lines @
                 nl @ ''**Correct Answer:** '' @
                 written (dict_get mcq ''correct_answer'' (JStr ''N/A'')) @ nl @
                 ''**Explanation:** '' @
                 written (dict_get mcq ''explanation'' (JStr ''N/A'')) @ nl @ nl))
      | _ \<Rightarrow> Inr [])"

definition true_false_text :: "(string \<times> json) list \<Rightarrow> string" where
  "true_false_text quiz =
     (case map_of quiz ''true_false'' of
        Some (JDict tf) \<Rightarrow>
          ''### 2. True/False Question'' @ nl @
          written (dict_get tf ''question'' (JStr ''N/A'')) @ nl @ nl @
          ''**Correct Answer:** '' @ written (dict_get tf ''correct_answer'' (JStr ''N/A'')) @ nl @
          ''**Explanation:** '' @ written (dict_get tf ''explanation'' (JStr ''N/A'')) @ nl @ nl
      | _ \<Rightarrow> [])"

definition matching_text :: "(string \<times> json) list \<Rightarrow> string" where
  "matching_text quiz =
     (case map_of quiz ''matching'' of
        Some (JDict matching) \<Rightarrow>
          ''### 3. Matching Question'' @ nl @
          written (dict_get matching ''question'' (JStr ''N/A'')) @ nl @ nl @
          (case dict_get matching ''pairs'' (JList []) of
             JList pairs \<Rightarrow> pairs_text pairs
           | _ \<Rightarrow> []) @
          nl @ ''**Explanation:** '' @
          written (dict_get matching ''explanation'' (JStr ''N/A'')) @ nl @ nl
      | _ \<Rightarrow> [])"

definition fill_blank_text :: "(string \<times> json) list \<Rightarrow> string" where
  "fill_blank_text quiz =
     (case map_of quiz ''fill_blank'' of
        Some (JDict fill) \<Rightarrow>
          ''### 4. Fill in the Blank'' @ nl @
          written (dict_get fill ''question'' (JStr ''N/A'')) @ nl @ nl @
          ''**Correct Answer:** '' @ written (dict_get fill ''correct_answer'' (JStr ''N/A'')) @ nl @
          ''**Explanation:** '' @ written (dict_get fill ''explanation'' (JStr ''N/A'')) @ nl @ nl
      | _ \<Rightarrow> [])"

definition invalid_section :: "nat \<Rightarrow> string" where
  "invalid_section i =
     ''## Quiz '' @ dec (i + 1) @ '' - Invalid Quiz'' @ nl @ nl @
     ''**Error:** This quiz could not be generated properly.'' @ nl @ nl @
     ''---'' @ nl @ nl"

definition section_head :: "nat \<Rightarrow> (string \<times> json) list \<Rightarrow> string" where
  "section_head i quiz =
     ''## Quiz '' @ dec (i + 1) @ nl @ nl @
     ''**Topic:** '' @ written (dict_get quiz ''topic'' (JStr ''N/A'')) @ nl @
     ''**Difficulty:** '' @ written (dict_get quiz ''difficulty'' (JStr ''N/A'')) @ nl @ nl"

text \<open>One round of the loop over the batch: the text written for entry \<open>i\<close>.\<close>

definition quiz_section :: "nat \<Rightarrow> json \<Rightarrow> py_error + string" where
  "quiz_section i quiz =
     (case quiz of
        JDict d \<Rightarrow>
          if \<not> truthy quiz \<or> \<not> is_dict quiz then Inr (invalid_section i)
          else bnd (mcq_text d) (\<lambda>mcq.
                 Inr (section_head i d @ mcq @ true_false_text d @ matching_text d @
                      fill_blank_text d @ ''---'' @ nl @ nl))
      | _ \<Rightarrow> Inr (invalid_section i))"

fun sections_text :: "nat \<Rightarrow> json list \<Rightarrow> py_error + string" where
  "sections_text i [] = Inr []"
| "sections_text i (quiz # rest) =
     bnd (quiz_section i quiz) (\<lambda>section.
     bnd (sections_text (i + 1) rest) (\<lambda>more. Inr (section @ more)))"

text \<open>What an export leaves: the return value, and the file when the export went
  through. A JSON file is given by the value that \<^verbatim>\<open>json.dump\<close> serialised, a report
  by its bytes. \<open>can_open\<close> tells of which files the opening for writing succeeds; an
  export that fails leaves no file or a part of it, which the model does not
  describe.\<close>

datatype artifact = JsonFile json | TextFile string

definition export_quiz_to_json :: "(string \<Rightarrow> bool) \<Rightarrow> json \<Rightarrow> string \<Rightarrow> bool \<times> artifact option" where
  "export_quiz_to_json can_open quiz_data filename =
     (if can_open filename then (True, Some (JsonFile quiz_data)) else (False, None))"

definition export_quiz_to_markdown :: "(string \<Rightarrow> bool) \<Rightarrow> json list \<Rightarrow> string \<Rightarrow> bool \<times> artifact option" where
  "export_quiz_to_markdown can_open quiz_data filename =
     (if can_open filename
      then (case sections_text 0 quiz_data of
              Inr body \<Rightarrow> (True, Some (TextFile (''# Generated Quiz'' @ nl @ nl @ body)))
            | Inl e \<Rightarrow> (False, None))
      else (False, None))"

subsection \<open>The summary and the package\<close>

text \<open>A histogram \<^verbatim>\<open>h\<close> with \<^verbatim>\<open>h[key] = h.get(key, 0) + 1\<close>: a list or a dict as key is
  unhashable; a key equal to one that is there counts on that one.\<close>

fun hist_add :: "json \<Rightarrow> (json \<times> nat) list \<Rightarrow> (json \<times> nat) list" where
  "hist_add key [] = [(key, 1)]"
| "hist_add key (kn # rest) =
     (if py_eq (fst kn) key then (fst kn, snd kn + 1) # rest else kn # hist_add key rest)"

fun count_key :: "json \<Rightarrow> (json \<times> nat) list \<Rightarrow> py_error + (json \<times> nat) list" where
  "count_key (JList xs) h = Inl TypeError"
| "count_key (JDict d) h = Inl TypeError"
| "count_key key h = Inr (hist_add key h)"

text \<open>The summary dict, with its five keys \<^verbatim>\<open>total_quizzes\<close>, \<^verbatim>\<open>topics\<close>,
  \<^verbatim>\<open>difficulties\<close>, \<^verbatim>\<open>question_types\<close> and \<^verbatim>\<open>generation_timestamp\<close>.\<close>

record summary =
  total_quizzes :: nat
  topic_counts :: "(json \<times> nat) list"
  difficulty_counts :: "(json \<times> nat) list"
  question_type_counts :: "(json \<times> nat) list"
  generation_timestamp :: string

fun count_types :: "json \<Rightarrow> string list \<Rightarrow> (json \<times> nat) list \<Rightarrow> py_error + (json \<times> nat) list" where
  "count_types quiz [] h = Inr h"
| "count_types quiz (q_type # rest) h =
     bnd (py_contains quiz q_type) (\<lambda>present.
       count_types quiz rest (if present then hist_add (JStr q_type) h else h))"

fun summary_loop :: "json list \<Rightarrow> summary \<Rightarrow> py_error + summary" where
  "summary_loop [] s = Inr s"
| "summary_loop (quiz # rest) s =
     bnd (py_get quiz ''topic'' (JStr ''Unknown'')) (\<lambda>topic.
     bnd (count_key topic (topic_counts s)) (\<lambda>ts.
     bnd (py_get quiz ''difficulty'' (JStr ''Unknown'')) (\<lambda>difficulty.
     bnd (count_key difficulty (difficulty_counts s)) (\<lambda>ds.
     bnd (count_types quiz question_types (question_type_counts s)) (\<lambda>qs.
       summary_loop rest
         (s\<lparr>topic_counts := ts, difficulty_counts := ds, question_type_counts := qs\<rparr>))))))"

definition generate_quiz_summary :: "string \<Rightarrow> json list \<Rightarrow> py_error + summary" where
  "generate_quiz_summary now quizzes =
     summary_loop quizzes
       \<lparr>total_quizzes = length quizzes, topic_counts = [], difficulty_counts = [],
        question_type_counts = [], generation_timestamp = now\<rparr>"

text \<open>\<^verbatim>\<open>os.path.join(a, b)\<close> for a relative \<open>b\<close>.\<close>

definition os_path_join :: "string \<Rightarrow> string \<Rightarrow> string" where
  "os_path_join a b =
     (if a = [] then b else if last a = CHR ''/'' then a @ b else a @ ''/'' @ b)"

text \<open>
  The package. \<open>can_mkdir\<close> tells whether \<^verbatim>\<open>os.makedirs\<close> succeeds, \<open>stamp\<close> is the
  clock as the file names carry it and \<open>now\<close> the clock of the summary. The two exports
  are called and their results dropped; the summary is computed and written by the
  function itself, outside any \<^verbatim>\<open>try\<close>. \<open>Inl e\<close> is an exception that reaches the
  caller.
\<close>

definition create_quiz_package :: "(string \<Rightarrow> bool) \<Rightarrow> (string \<Rightarrow> bool) \<Rightarrow> string \<Rightarrow> string \<Rightarrow> json list \<Rightarrow> string \<Rightarrow> py_error + string" where
  "create_quiz_package can_mkdir can_open stamp now quizzes output_dir =
     (if \<not> can_mkdir output_dir then Inl OSError
      else
        let json_filename = os_path_join output_dir (''generated_quiz_'' @ stamp @ ''.json'');
            json_done = export_quiz_to_json can_open (JList quizzes) json_filename;
            md_filename = os_path_join output_dir (''generated_quiz_'' @ stamp @ ''.md'');
            md_done = export_quiz_to_markdown can_open quizzes md_filename
        in bnd (generate_quiz_summary now quizzes) (\<lambda>summary.
             let summary_filename = os_path_join output_dir (''quiz_summary_'' @ stamp @ ''.json'')
             in if can_open summary_filename then Inr output_dir else Inl OSError))"

text \<open>An entry of a batch is a record when it is a dict that is not empty; any other
  entry is malformed.\<close>

definition is_record :: "json \<Rightarrow> bool" where
  "is_record quiz = (truthy quiz \<and> is_dict quiz)"

text \<open>A record has a variant when the key of the variant is there and bound to a
  dict.\<close>

definition has_block :: "(string \<times> json) list \<Rightarrow> string \<Rightarrow> bool" where
  "has_block quiz key = (case map_of quiz key of Some (JDict block) \<Rightarrow> True | _ \<Rightarrow> False)"

text \<open>File systems for the examples: one on which every file opens, one on which every
  file but the summary of the package opens, and one on which only that summary opens;
  and a directory creation that always succeeds.\<close>

definition always_open :: "string \<Rightarrow> bool" where
  "always_open filename = True"

definition summary_closed :: "string \<Rightarrow> bool" where
  "summary_closed filename = (filename \<noteq> ''out/quiz_summary_20240101_120000.json'')"

definition summary_only :: "string \<Rightarrow> bool" where
  "summary_only filename = (filename = ''out/quiz_summary_20240101_120000.json'')"

definition always_mkdir :: "string \<Rightarrow> bool" where
  "always_mkdir directory = True"

text \<open>A pair of a matching question whose term and definition are texts, and what it is
  for the submitted answers to give such a pair its exact definition: they bind the term
  to the very text of the definition.\<close>

definition text_pair :: "json \<Rightarrow> bool" where
  "text_pair pair =
     (case pair of
        JDict p \<Rightarrow>
          (case (dict_get p ''term'' (JStr []), dict_get p ''definition'' (JStr [])) of
             (JStr t, JStr d) \<Rightarrow> True
           | _ \<Rightarrow> False)
      | _ \<Rightarrow> False)"

definition exactly_answered :: "(string \<times> json) list \<Rightarrow> json \<Rightarrow> bool" where
  "exactly_answered submitted pair =
     (case pair of
        JDict p \<Rightarrow>
          (case (dict_get p ''term'' (JStr []), dict_get p ''definition'' (JStr [])) of
             (JStr t, JStr d) \<Rightarrow> map_of submitted t = Some (JStr d)
           | _ \<Rightarrow> False)
      | _ \<Rightarrow> False)"

text \<open>Two behaviours of the collaborators, for the examples below. A reply of 4301
  digits is beyond the limit of Python's conversion of integers, and \<^verbatim>\<open>json.loads\<close>
  raises a \<^verbatim>\<open>ValueError\<close> that is not a \<^verbatim>\<open>JSONDecodeError\<close>; the reply \<^verbatim>\<open>null\<close>
  parses, to \<^verbatim>\<open>None\<close>.\<close>

definition digits_service :: service where
  "digits_service system user = Inr (Some (replicate 4301 CHR ''1''))"

definition digits_loads :: loads where
  "digits_loads reply =
     Inl (OtherException ''Exceeds the limit (4300 digits) for integer string conversion: value has 4301 digits; use sys.set_int_max_str_digits() to increase the limit'')"

definition null_service :: service where
  "null_service system user = Inr (Some ''null'')"

definition null_loads :: loads where
  "null_loads reply = Inr JNull"

section \<open>Facts about the fallible steps\<close>

lemma bnd_Inr_iff: "bnd m f = Inr y \<longleftrightarrow> (\<exists>x. m = Inr x \<and> f x = Inr y)"
  by (cases m) (simp_all add: bnd_def)

lemma bnd_Inr [simp]: "bnd (Inr x) f = f x"
  by (simp add: bnd_def)

lemma bnd_Inl [simp]: "bnd (Inl e) f = Inl e"
  by (simp add: bnd_def)

lemma py_lower_Inr_iff: "py_lower x = Inr l \<longleftrightarrow> (\<exists>s. x = JStr s \<and> l = lower s)"
  by (cases x) auto

lemma py_get_Inr_iff: "py_get x k d = Inr v \<longleftrightarrow> (\<exists>m. x = JDict m \<and> v = dict_get m k d)"
  by (cases x) auto

section \<open>Facts about text comparison\<close>

lemma of_char_lower_char:
  "(of_char (lower_char c) :: nat) = (if is_upper c then of_char c + 32 else of_char c)"
  by (simp add: lower_char_def is_upper_def)

lemma eq_char_of_iff: "c = char_of (n::nat) \<longleftrightarrow> take_bit 8 n = of_char c"
  using char_of_eq_iff[of n c] by auto

lemma lower_char_eq_iff: "lower_char a = lower_char b \<longleftrightarrow> same_letter a b"
proof -
  have "lower_char a = lower_char b \<longleftrightarrow>
        (of_char (lower_char a) :: nat) = of_char (lower_char b)"
    by simp
  also have "\<dots> \<longleftrightarrow> same_letter a b"
    unfolding of_char_lower_char same_letter_def
    using of_char_eq_iff[of a b, where 'a = nat]
    by (auto simp: is_upper_def)
  finally show ?thesis .
qed

lemma lower_eq_iff: "lower s = lower t \<longleftrightarrow> same_ignoring_case s t"
proof -
  have "lower s = lower t \<longleftrightarrow> list_all2 (=) (map lower_char s) (map lower_char t)"
    by (simp add: lower_def list_all2_eq)
  also have "\<dots> \<longleftrightarrow> list_all2 (\<lambda>a b. lower_char a = lower_char b) s t"
    by (simp add: list_all2_map1 list_all2_map2)
  also have "\<dots> \<longleftrightarrow> same_ignoring_case s t"
    by (simp add: same_ignoring_case_def lower_char_eq_iff[abs_def])
  finally show ?thesis .
qed

lemma is_space_lower_char: "is_space (lower_char c) = is_space c"
  unfolding is_space_def of_char_lower_char by (auto simp: is_upper_def)

lemma strip_lower: "strip (lower s) = lower (strip s)"
proof -
  have comp: "is_space \<circ> lower_char = is_space"
    by (rule ext) (simp add: is_space_lower_char)
  show ?thesis
    by (simp add: strip_def lower_def dropWhile_map rev_map comp)
qed

lemma py_eq_JStr_iff: "py_eq x (JStr d) \<longleftrightarrow> x = JStr d"
  by (cases x) auto

section \<open>Facts about the scorer\<close>

lemma count_matches_Inr:
  "count_matches ua items n = Inr k \<Longrightarrow>
     k = n + length (filter (matched ua) items) \<and>
     (\<forall>p \<in> set items. \<exists>b. pair_match ua p = Inr b)"
proof (induction items arbitrary: n)
  case Nil
  then show ?case by simp
next
  case (Cons p ps)
  from Cons.prems obtain hit where h: "pair_match ua p = Inr hit"
    and r: "count_matches ua ps (if hit then n + 1 else n) = Inr k"
    by (auto simp: bnd_Inr_iff)
  from Cons.IH[OF r] h show ?case by (cases hit) (auto simp: matched_def)
qed

lemma count_full_iff:
  "length (filter P xs) = length xs \<longleftrightarrow> (\<forall>x \<in> set xs. P x)"
proof (induction xs)
  case Nil
  then show ?case by simp
next
  case (Cons x xs)
  have le: "length (filter P xs) \<le> length xs"
    by (rule length_filter_le)
  show ?case
  proof (cases "P x")
    case True
    with Cons show ?thesis by simp
  next
    case False
    have "length (filter P xs) \<noteq> Suc (length xs)"
      using le by arith
    with False show ?thesis by simp
  qed
qed

lemma map_of_record_correct:
  "map_of (detailed_results (record_correct kind msg sr)) k =
     (if k = kind then Some (correct_entry msg) else map_of (detailed_results sr) k)"
  by (simp add: record_correct_def update_conv')

lemma map_of_record_incorrect:
  "map_of (detailed_results (record_incorrect kind msg expl sr)) k =
     (if k = kind then Some (incorrect_entry msg expl) else map_of (detailed_results sr) k)"
  by (simp add: record_incorrect_def update_conv')

lemma calculate_quiz_score_steps:
  assumes "calculate_quiz_score a q = Inr r"
  obtains sr1 sr2 sr3 sr4 sr5 where
    "score_mcq a q \<lparr>total_questions = 0, correct_answers = 0, score_percentage = 0,
                 detailed_results = [], feedback = []\<rparr> = Inr sr1"
    "score_true_false a q sr1 = Inr sr2"
    "score_matching a q sr2 = Inr sr3"
    "score_fill_blank a q sr3 = Inr sr4"
    "percentage sr4 = Inr sr5"
    "r = overall_feedback sr5"
  using assms by (auto simp: calculate_quiz_score_def Let_def bnd_Inr_iff)

lemma score_mcq_absent: "map_of q ''mcq'' = None \<Longrightarrow> score_mcq a q sr = Inr sr"
  by (simp add: score_mcq_def)

lemma score_mcq_present:
  assumes "map_of q ''mcq'' = Some mv" and "score_mcq a q sr = Inr sr'"
  obtains m u c where "mv = JDict m" "dict_get a ''mcq'' (JStr []) = JStr u"
    "dict_get m ''correct_answer'' (JStr []) = JStr c"
    "sr' = (if lower u = lower c then record_correct ''mcq'' ''Correct!'' (bump sr)
            else record_incorrect ''mcq'' (''Incorrect. The correct answer is '' @ c @ ''.'')
                   (dict_get m ''explanation'' (JStr [])) (bump sr))"
  using assms
  by (auto simp: score_mcq_def Let_def bnd_Inr_iff py_lower_Inr_iff py_get_Inr_iff bump_def
      split: if_splits)

lemma score_true_false_absent:
  "map_of q ''true_false'' = None \<Longrightarrow> score_true_false a q sr = Inr sr"
  by (simp add: score_true_false_def)

lemma score_true_false_present:
  assumes "map_of q ''true_false'' = Some mv" and "score_true_false a q sr = Inr sr'"
  obtains m u c where "mv = JDict m" "dict_get a ''true_false'' (JStr []) = JStr u"
    "dict_get m ''correct_answer'' (JStr []) = JStr c"
    "sr' = (if lower u = lower c then record_correct ''true_false'' ''Correct!'' (bump sr)
            else record_incorrect ''true_false'' (''Incorrect. The correct answer is '' @ c @ ''.'')
                   (dict_get m ''explanation'' (JStr [])) (bump sr))"
  using assms
  by (auto simp: score_true_false_def Let_def bnd_Inr_iff py_lower_Inr_iff py_get_Inr_iff bump_def
      split: if_splits)

lemma score_fill_blank_absent:
  "map_of q ''fill_blank'' = None \<Longrightarrow> score_fill_blank a q sr = Inr sr"
  by (simp add: score_fill_blank_def)

lemma score_fill_blank_present:
  assumes "map_of q ''fill_blank'' = Some mv" and "score_fill_blank a q sr = Inr sr'"
  obtains m u c where "mv = JDict m" "dict_get a ''fill_blank'' (JStr []) = JStr u"
    "dict_get m ''correct_answer'' (JStr []) = JStr c"
    "sr' = (if strip (lower u) = strip (lower c)
            then record_correct ''fill_blank'' ''Correct!'' (bump sr)
            else record_incorrect ''fill_blank''
                   (''Incorrect. The correct answer is '' @ [CHR 0x27] @ c @ [CHR 0x27] @ ''.'')
                   (dict_get m ''explanation'' (JStr [])) (bump sr))"
  using assms
  by (auto simp: score_fill_blank_def Let_def bnd_Inr_iff py_lower_Inr_iff py_get_Inr_iff bump_def
      split: if_splits)

lemma score_matching_absent:
  "map_of q ''matching'' = None \<Longrightarrow> score_matching a q sr = Inr sr"
  by (simp add: score_matching_def)

lemma score_matching_present:
  assumes "map_of q ''matching'' = Some mv" and "score_matching a q sr = Inr sr'"
  obtains m items where "mv = JDict m"
    "py_iter (dict_get m ''pairs'' (JList [])) = Inr items"
    "sr' = (if \<forall>p \<in> set items. matched (dict_get a ''matching'' (JDict [])) p
            then record_correct ''matching'' ''Perfect matching!'' (bump sr)
            else record_incorrect ''matching''
                   (''Partially correct. You got '' @
                    dec (length (filter (matched (dict_get a ''matching'' (JDict []))) items)) @
                    ''/'' @ dec (length items) @ '' matches right.'')
                   (dict_get m ''explanation'' (JStr [])) (bump sr))"
proof -
  let ?ua = "dict_get a ''matching'' (JDict [])"
  from assms obtain m pairs n items k where m: "mv = JDict m"
    and p: "pairs = dict_get m ''pairs'' (JList [])"
    and n: "py_len pairs = Inr n" and i: "py_iter pairs = Inr items"
    and c: "count_matches ?ua items 0 = Inr k"
    and r: "sr' = (if k = n then record_correct ''matching'' ''Perfect matching!'' (bump sr)
            else record_incorrect ''matching''
                   (''Partially correct. You got '' @ dec k @ ''/'' @ dec n @ '' matches right.'')
                   (dict_get m ''explanation'' (JStr [])) (bump sr))"
    by (auto simp: score_matching_def Let_def bnd_Inr_iff py_get_Inr_iff bump_def
        split: if_splits)
  have len: "n = length items"
    using n i by (cases pairs) auto
  have k: "k = length (filter (matched ?ua) items)"
    using count_matches_Inr[OF c] by simp
  have "k = n \<longleftrightarrow> (\<forall>p \<in> set items. matched ?ua p)"
    unfolding k len by (rule count_full_iff)
  with r k len m p i show ?thesis
    using that by simp
qed

lemma verdict_record_correct [simp]:
  "verdict (record_correct kind msg sr) kind = Some True"
  by (simp add: verdict_def map_of_record_correct correct_entry_def)

lemma verdict_record_incorrect [simp]:
  "verdict (record_incorrect kind msg expl sr) kind = Some False"
  by (simp add: verdict_def map_of_record_incorrect incorrect_entry_def)

lemma entry_feedback_record_correct [simp]:
  "entry_feedback (record_correct kind msg sr) kind = Some (JStr msg)"
  by (simp add: entry_feedback_def map_of_record_correct correct_entry_def)

lemma entry_feedback_record_incorrect [simp]:
  "entry_feedback (record_incorrect kind msg expl sr) kind = Some (JStr msg)"
  by (simp add: entry_feedback_def map_of_record_incorrect incorrect_entry_def)

lemma verdict_cong:
  "map_of (detailed_results r) k = map_of (detailed_results r') k \<Longrightarrow> verdict r k = verdict r' k"
  by (simp add: verdict_def)

lemma entry_feedback_cong:
  "map_of (detailed_results r) k = map_of (detailed_results r') k \<Longrightarrow>
     entry_feedback r k = entry_feedback r' k"
  by (simp add: entry_feedback_def)

lemma credit_cong:
  "map_of (detailed_results r) k = map_of (detailed_results r') k \<Longrightarrow> credit r k = credit r' k"
  by (simp add: credit_def verdict_def)

lemma step_effect_mcq: "score_mcq a q sr = Inr sr' \<Longrightarrow> step_effect ''mcq'' sr sr'"
proof (cases "map_of q ''mcq''")
  case None
  assume "score_mcq a q sr = Inr sr'"
  with None show ?thesis by (simp add: score_mcq_absent step_effect_def)
next
  case (Some mv)
  assume "score_mcq a q sr = Inr sr'"
  from score_mcq_present[OF Some this] show ?thesis
    unfolding step_effect_def by (metis (full_types))
qed

lemma step_effect_true_false:
  "score_true_false a q sr = Inr sr' \<Longrightarrow> step_effect ''true_false'' sr sr'"
proof (cases "map_of q ''true_false''")
  case None
  assume "score_true_false a q sr = Inr sr'"
  with None show ?thesis by (simp add: score_true_false_absent step_effect_def)
next
  case (Some mv)
  assume "score_true_false a q sr = Inr sr'"
  from score_true_false_present[OF Some this] show ?thesis
    unfolding step_effect_def by (metis (full_types))
qed

lemma step_effect_fill_blank:
  "score_fill_blank a q sr = Inr sr' \<Longrightarrow> step_effect ''fill_blank'' sr sr'"
proof (cases "map_of q ''fill_blank''")
  case None
  assume "score_fill_blank a q sr = Inr sr'"
  with None show ?thesis by (simp add: score_fill_blank_absent step_effect_def)
next
  case (Some mv)
  assume "score_fill_blank a q sr = Inr sr'"
  from score_fill_blank_present[OF Some this] show ?thesis
    unfolding step_effect_def by (metis (full_types))
qed

lemma step_effect_matching:
  "score_matching a q sr = Inr sr' \<Longrightarrow> step_effect ''matching'' sr sr'"
proof (cases "map_of q ''matching''")
  case None
  assume "score_matching a q sr = Inr sr'"
  with None show ?thesis by (simp add: score_matching_absent step_effect_def)
next
  case (Some mv)
  assume "score_matching a q sr = Inr sr'"
  from score_matching_present[OF Some this] show ?thesis
    unfolding step_effect_def by (metis (full_types))
qed

lemma step_effect_credit:
  assumes "step_effect kind sr sr'" and "map_of (detailed_results sr) kind = None"
  shows "correct_answers sr' = correct_answers sr + credit sr' kind"
  using assms unfolding step_effect_def
  by (auto simp: credit_def verdict_def record_correct_def record_incorrect_def bump_def
      update_conv' correct_entry_def incorrect_entry_def)

lemma step_effect_other:
  assumes "step_effect kind sr sr'" and "k \<noteq> kind"
  shows "map_of (detailed_results sr') k = map_of (detailed_results sr) k"
  using assms unfolding step_effect_def
  by (auto simp: map_of_record_correct map_of_record_incorrect bump_def)

lemma percentage_returns: "\<exists>sr'. percentage sr = Inr sr'"
  by (simp add: percentage_def py_div_def)

lemma percentage_keeps:
  "percentage sr = Inr sr' \<Longrightarrow>
     detailed_results sr' = detailed_results sr \<and> correct_answers sr' = correct_answers sr \<and>
     total_questions sr' = total_questions sr \<and> feedback sr' = feedback sr"
  by (auto simp: percentage_def py_div_def split: if_splits)

lemma overall_feedback_keeps [simp]:
  "detailed_results (overall_feedback sr) = detailed_results sr"
  "correct_answers (overall_feedback sr) = correct_answers sr"
  "total_questions (overall_feedback sr) = total_questions sr"
  "score_percentage (overall_feedback sr) = score_percentage sr"
  by (simp_all add: overall_feedback_def)

text \<open>The whole call, with what each step leaves in \<open>detailed_results\<close>: a later step
  never touches the entry of an earlier one.\<close>

lemma calculate_quiz_score_trace:
  assumes "calculate_quiz_score a q = Inr r"
  obtains sr0 sr1 sr2 sr3 sr4 where
    "detailed_results sr0 = []" "correct_answers sr0 = 0"
    "score_mcq a q sr0 = Inr sr1"
    "score_true_false a q sr1 = Inr sr2"
    "score_matching a q sr2 = Inr sr3"
    "score_fill_blank a q sr3 = Inr sr4"
    "map_of (detailed_results r) ''mcq'' = map_of (detailed_results sr1) ''mcq''"
    "map_of (detailed_results r) ''true_false'' = map_of (detailed_results sr2) ''true_false''"
    "map_of (detailed_results r) ''matching'' = map_of (detailed_results sr3) ''matching''"
    "map_of (detailed_results r) ''fill_blank'' = map_of (detailed_results sr4) ''fill_blank''"
    "correct_answers r = correct_answers sr4"
proof -
  let ?sr0 = "\<lparr>total_questions = 0, correct_answers = 0, score_percentage = 0,
                 detailed_results = [], feedback = []\<rparr>"
  from assms obtain sr1 sr2 sr3 sr4 sr5 where
    s1: "score_mcq a q ?sr0 = Inr sr1" and s2: "score_true_false a q sr1 = Inr sr2" and
    s3: "score_matching a q sr2 = Inr sr3" and s4: "score_fill_blank a q sr3 = Inr sr4" and
    s5: "percentage sr4 = Inr sr5" and r: "r = overall_feedback sr5"
    by (rule calculate_quiz_score_steps)
  note k = percentage_keeps[OF s5]
  note e2 = step_effect_true_false[OF s2]
    and e3 = step_effect_matching[OF s3] and e4 = step_effect_fill_blank[OF s4]
  have m2: "map_of (detailed_results sr2) k = map_of (detailed_results sr1) k"
    if "k \<noteq> ''true_false''" for k
    using step_effect_other[OF e2 that] .
  have m3: "map_of (detailed_results sr3) k = map_of (detailed_results sr2) k"
    if "k \<noteq> ''matching''" for k
    using step_effect_other[OF e3 that] .
  have m4: "map_of (detailed_results sr4) k = map_of (detailed_results sr3) k"
    if "k \<noteq> ''fill_blank''" for k
    using step_effect_other[OF e4 that] .
  show ?thesis
  proof (rule that[of ?sr0 sr1 sr2 sr3 sr4])
    show "map_of (detailed_results r) ''mcq'' = map_of (detailed_results sr1) ''mcq''"
      by (simp add: r k m4 m3 m2)
    show "map_of (detailed_results r) ''true_false'' = map_of (detailed_results sr2) ''true_false''"
      by (simp add: r k m4 m3)
    show "map_of (detailed_results r) ''matching'' = map_of (detailed_results sr3) ''matching''"
      by (simp add: r k m4)
    show "map_of (detailed_results r) ''fill_blank'' = map_of (detailed_results sr4) ''fill_blank''"
      by (simp add: r k)
    show "correct_answers r = correct_answers sr4"
      by (simp add: r k)
  qed (simp_all add: s1 s2 s3 s4)
qed

lemma correct_answers_credits:
  assumes "calculate_quiz_score a q = Inr r"
  shows "correct_answers r =
     credit r ''mcq'' + credit r ''true_false'' + credit r ''matching'' + credit r ''fill_blank''"
proof -
  from assms obtain sr0 sr1 sr2 sr3 sr4 where
    d0: "detailed_results sr0 = []" and c0: "correct_answers sr0 = 0" and
    s1: "score_mcq a q sr0 = Inr sr1" and s2: "score_true_false a q sr1 = Inr sr2" and
    s3: "score_matching a q sr2 = Inr sr3" and s4: "score_fill_blank a q sr3 = Inr sr4" and
    f1: "map_of (detailed_results r) ''mcq'' = map_of (detailed_results sr1) ''mcq''" and
    f2: "map_of (detailed_results r) ''true_false'' = map_of (detailed_results sr2) ''true_false''" and
    f3: "map_of (detailed_results r) ''matching'' = map_of (detailed_results sr3) ''matching''" and
    f4: "map_of (detailed_results r) ''fill_blank'' = map_of (detailed_results sr4) ''fill_blank''" and
    cr: "correct_answers r = correct_answers sr4"
    by (rule calculate_quiz_score_trace)
  note e1 = step_effect_mcq[OF s1] and e2 = step_effect_true_false[OF s2]
    and e3 = step_effect_matching[OF s3] and e4 = step_effect_fill_blank[OF s4]
  have m1: "map_of (detailed_results sr1) k = None" if "k \<noteq> ''mcq''" for k
    using step_effect_other[OF e1 that] d0 by simp
  have m2: "map_of (detailed_results sr2) k = map_of (detailed_results sr1) k"
    if "k \<noteq> ''true_false''" for k
    using step_effect_other[OF e2 that] .
  have m3: "map_of (detailed_results sr3) k = map_of (detailed_results sr2) k"
    if "k \<noteq> ''matching''" for k
    using step_effect_other[OF e3 that] .
  have c1: "correct_answers sr1 = credit sr1 ''mcq''"
    using step_effect_credit[OF e1] d0 c0 by simp
  have c2: "correct_answers sr2 = correct_answers sr1 + credit sr2 ''true_false''"
    using step_effect_credit[OF e2] m1 by simp
  have c3: "correct_answers sr3 = correct_answers sr2 + credit sr3 ''matching''"
    using step_effect_credit[OF e3] m1 m2 by simp
  have c4: "correct_answers sr4 = correct_answers sr3 + credit sr4 ''fill_blank''"
    using step_effect_credit[OF e4] m1 m2 m3 by simp
  have "credit r ''mcq'' = credit sr1 ''mcq''" "credit r ''true_false'' = credit sr2 ''true_false''"
    "credit r ''matching'' = credit sr3 ''matching''" "credit r ''fill_blank'' = credit sr4 ''fill_blank''"
    by (rule credit_cong[OF f1], rule credit_cong[OF f2], rule credit_cong[OF f3],
        rule credit_cong[OF f4])
  with c1 c2 c3 c4 cr show ?thesis
    by simp
qed

lemma calculate_quiz_score_percentage:
  assumes "calculate_quiz_score a q = Inr r" and "total_questions r > 0"
  shows "score_percentage r = real (correct_answers r) / real (total_questions r) * 100"
proof -
  from assms(1) obtain sr1 sr2 sr3 sr4 sr5 where
    s5: "percentage sr4 = Inr sr5" and r: "r = overall_feedback sr5"
    by (rule calculate_quiz_score_steps)
  from assms(2) r percentage_keeps[OF s5] have "total_questions sr4 > 0"
    by simp
  with s5 have "sr5 = sr4\<lparr>score_percentage :=
      real (correct_answers sr4) / real (total_questions sr4) * 100\<rparr>"
    by (simp add: percentage_def py_div_def)
  with r show ?thesis
    by simp
qed

section \<open>Facts about validation\<close>

lemma check_mcq_keeps:
  "check_mcq q vr = Inr vr' \<Longrightarrow> is_valid vr' = is_valid vr \<and> errors vr' = errors vr"
  by (auto simp: check_mcq_def bnd_Inr_iff simp del: all_keys_in.simps
      split: option.splits if_splits)

lemma check_true_false_keeps:
  "check_true_false q vr = Inr vr' \<Longrightarrow> is_valid vr' = is_valid vr \<and> errors vr' = errors vr"
  by (auto simp: check_true_false_def bnd_Inr_iff simp del: all_keys_in.simps
      split: option.splits if_splits)

lemma check_types_eq:
  "check_types q vr =
     (if no_variant q
      then vr\<lparr>is_valid := False, errors := errors vr @ [''No question types found'']\<rparr> else vr)"
  by (simp add: check_types_def no_variant_def question_types_def)

lemma validate_quiz_structure_steps:
  assumes "validate_quiz_structure q = Inr r"
  obtains vr2 vr3 where
    "errors vr2 = expected_errors q" "is_valid vr2 \<longleftrightarrow> expected_errors q = []" "warnings vr2 = []"
    "check_mcq q vr2 = Inr vr3" "check_true_false q vr3 = Inr r"
proof -
  define vr2 where "vr2 = check_types q (check_required q [''topic'', ''difficulty'']
     \<lparr>is_valid = True, errors = [], warnings = []\<rparr>)"
  from assms obtain vr3 where a: "check_mcq q vr2 = Inr vr3" and b: "check_true_false q vr3 = Inr r"
    by (auto simp: validate_quiz_structure_def Let_def bnd_Inr_iff vr2_def)
  have "errors vr2 = expected_errors q"
    by (simp add: vr2_def check_types_eq expected_errors_def)
  moreover have "is_valid vr2 \<longleftrightarrow> expected_errors q = []"
    by (simp add: vr2_def check_types_eq expected_errors_def)
  moreover have "warnings vr2 = []"
    by (simp add: vr2_def check_types_eq)
  ultimately show ?thesis
    using a b that by blast
qed

lemma all_keys_in_JDict: "all_keys_in (JDict m) ks = Inr (\<forall>k \<in> set ks. has_key m k)"
  by (induction ks) simp_all

lemma check_true_false_warnings:
  "check_true_false q vr = Inr vr' \<Longrightarrow> set (warnings vr) \<subseteq> set (warnings vr')"
  by (auto simp: check_true_false_def bnd_Inr_iff simp del: all_keys_in.simps
      split: option.splits if_splits)

section \<open>Facts about generation\<close>

lemma generate_quiz_questions_returns:
  "\<exists>quiz. generate_quiz_questions svc loads chunk topic difficulty = Inr quiz"
  by (simp add: generate_quiz_questions_def split: sum.splits)

section \<open>Claims about the scorer\<close>

lemmas score_eval =
  calculate_quiz_score_def score_mcq_def score_true_false_def score_matching_def
  score_fill_blank_def percentage_def py_div_def overall_feedback_def record_correct_def
  record_incorrect_def correct_entry_def incorrect_entry_def dict_get_def has_key_def
  pair_match_def lower_def lower_char_def is_upper_def strip_def is_space_def
  char_of_eq_iff eq_char_of_iff verdict_def entry_feedback_def credit_def matched_def Let_def

text \<open>
  C6: a record with none of the four kinds of question is scored without a fault, with
  \<open>total_questions = 0\<close> and \<open>score_percentage = 0\<close>. No step counts a question, and
  the quotient, which would raise \<^verbatim>\<open>ZeroDivisionError\<close> on the divisor 0, is computed
  only when \<open>total_questions > 0\<close>: the step that sets the percentage returns on every
  score, and returns the score unchanged when no question was counted. The result is the
  initial score with the lowest feedback line, whatever the submitted answers are.
\<close>

theorem score_without_questions:
  "(no_variant quiz_data \<longrightarrow>
      calculate_quiz_score answers quiz_data =
        Inr \<lparr>total_questions = 0, correct_answers = 0, score_percentage = 0,
             detailed_results = [],
             feedback = [''You may need to review this topic more thoroughly.'']\<rparr>) \<and>
   py_div (real (correct_answers sr)) 0 = Inl ZeroDivisionError \<and>
   (\<exists>sr'. percentage sr = Inr sr') \<and>
   (total_questions sr = 0 \<longrightarrow> percentage sr = Inr sr) \<and>
   (total_questions sr > 0 \<longrightarrow>
      percentage sr =
        Inr (sr\<lparr>score_percentage :=
               real (correct_answers sr) / real (total_questions sr) * 100\<rparr>))"
proof -
  have a: "calculate_quiz_score answers quiz_data =
        Inr \<lparr>total_questions = 0, correct_answers = 0, score_percentage = 0,
             detailed_results = [],
             feedback = [''You may need to review this topic more thoroughly.'']\<rparr>"
    if "no_variant quiz_data"
  proof -
    from that have "map_of quiz_data ''mcq'' = None" "map_of quiz_data ''true_false'' = None"
      "map_of quiz_data ''matching'' = None" "map_of quiz_data ''fill_blank'' = None"
      by (simp_all add: no_variant_def has_key_def)
    then show ?thesis
      by (simp add: calculate_quiz_score_def score_mcq_absent score_true_false_absent
          score_matching_absent score_fill_blank_absent percentage_def overall_feedback_def)
  qed
  have b: "py_div (real (correct_answers sr)) 0 = Inl ZeroDivisionError"
    by (simp add: py_div_def)
  have c: "\<exists>sr'. percentage sr = Inr sr'"
    by (rule percentage_returns)
  have d: "percentage sr = Inr sr" if "total_questions sr = 0"
    using that by (simp add: percentage_def)
  have e: "percentage sr =
        Inr (sr\<lparr>score_percentage :=
               real (correct_answers sr) / real (total_questions sr) * 100\<rparr>)"
    if "total_questions sr > 0"
    using that by (simp add: percentage_def py_div_def)
  from a b c d e show ?thesis
    by (intro conjI impI)
qed

text \<open>The witness: a record with topic and difficulty only, a score of no question, and
  a score of two questions with one correct answer.\<close>

theorem score_without_questions_witness:
  "no_variant [(''topic'', JStr ''History''), (''difficulty'', JStr ''Expert'')] \<and>
   calculate_quiz_score [(''mcq'', JStr ''a'')]
     [(''topic'', JStr ''History''), (''difficulty'', JStr ''Expert'')] =
     Inr \<lparr>total_questions = 0, correct_answers = 0, score_percentage = 0,
          detailed_results = [],
          feedback = [''You may need to review this topic more thoroughly.'']\<rparr> \<and>
   percentage \<lparr>total_questions = 0, correct_answers = 0, score_percentage = 0,
          detailed_results = [], feedback = []\<rparr> =
     Inr \<lparr>total_questions = 0, correct_answers = 0, score_percentage = 0,
          detailed_results = [], feedback = []\<rparr> \<and>
   percentage \<lparr>total_questions = 2, correct_answers = 1, score_percentage = 0,
          detailed_results = [], feedback = []\<rparr> =
     Inr \<lparr>total_questions = 2, correct_answers = 1, score_percentage = 50,
          detailed_results = [], feedback = []\<rparr>"
proof -
  let ?q = "[(''topic'', JStr ''History''), (''difficulty'', JStr ''Expert'')]"
  let ?s0 = "\<lparr>total_questions = 0, correct_answers = 0, score_percentage = 0,
          detailed_results = [], feedback = []\<rparr>"
  let ?s2 = "\<lparr>total_questions = 2, correct_answers = 1, score_percentage = 0,
          detailed_results = [], feedback = []\<rparr>"
  have h: "no_variant ?q"
    by (simp add: no_variant_def has_key_def)
  from h score_without_questions[of ?q "[(''mcq'', JStr ''a'')]" ?s0]
    score_without_questions[of ?q "[(''mcq'', JStr ''a'')]" ?s2]
  show ?thesis
    by simp
qed

text \<open>
  C1: matching is all or nothing. When the scorer returns on a record whose matching
  question has the list \<open>pairs\<close>, the question is marked correct exactly when every pair
  is matched by the submitted answers; it then adds one to \<open>correct_answers\<close>, and
  nothing otherwise (\<open>correct_answers\<close> is the number of questions marked correct).
  When some pair is not matched, the feedback text gives the number of matched pairs
  over the number of pairs.
\<close>

theorem matching_all_or_nothing:
  assumes "calculate_quiz_score answers quiz_data = Inr r"
    and "map_of quiz_data ''matching'' = Some (JDict matching)"
    and "dict_get matching ''pairs'' (JList []) = JList pairs"
  shows "verdict r ''matching'' =
           Some (\<forall>p \<in> set pairs. matched (dict_get answers ''matching'' (JDict [])) p) \<and>
         credit r ''matching'' =
           (if \<forall>p \<in> set pairs. matched (dict_get answers ''matching'' (JDict [])) p
            then 1 else 0) \<and>
         correct_answers r =
           credit r ''mcq'' + credit r ''true_false'' + credit r ''matching'' +
           credit r ''fill_blank'' \<and>
         ((\<exists>p \<in> set pairs. \<not> matched (dict_get answers ''matching'' (JDict [])) p) \<longrightarrow>
          entry_feedback r ''matching'' =
            Some (JStr (''Partially correct. You got '' @
              dec (length (filter (matched (dict_get answers ''matching'' (JDict []))) pairs)) @
              ''/'' @ dec (length pairs) @ '' matches right.'')))"
proof -
  let ?ua = "dict_get answers ''matching'' (JDict [])"
  from assms(1) obtain sr2 sr3 where
    s3: "score_matching answers quiz_data sr2 = Inr sr3" and
    f3: "map_of (detailed_results r) ''matching'' = map_of (detailed_results sr3) ''matching''"
    by (rule calculate_quiz_score_trace)
  obtain m items where m: "JDict matching = JDict m"
    and i: "py_iter (dict_get m ''pairs'' (JList [])) = Inr items"
    and e: "sr3 = (if \<forall>p \<in> set items. matched ?ua p
            then record_correct ''matching'' ''Perfect matching!'' (bump sr2)
            else record_incorrect ''matching''
                   (''Partially correct. You got '' @
                    dec (length (filter (matched ?ua) items)) @
                    ''/'' @ dec (length items) @ '' matches right.'')
                   (dict_get m ''explanation'' (JStr [])) (bump sr2))"
    by (rule score_matching_present[OF assms(2) s3])
  from m i assms(3) have items: "items = pairs"
    by simp
  note sr3 = e[unfolded items]
  have v: "verdict r ''matching'' = Some (\<forall>p \<in> set pairs. matched ?ua p)"
    unfolding verdict_cong[OF f3] sr3 by simp
  have fb: "entry_feedback r ''matching'' =
            Some (JStr (''Partially correct. You got '' @
              dec (length (filter (matched ?ua) pairs)) @
              ''/'' @ dec (length pairs) @ '' matches right.''))"
    if "\<exists>p \<in> set pairs. \<not> matched ?ua p"
    unfolding entry_feedback_cong[OF f3] sr3 using that by simp
  have c: "credit r ''matching'' = (if \<forall>p \<in> set pairs. matched ?ua p then 1 else 0)"
    unfolding credit_def v by simp
  from v c fb correct_answers_credits[OF assms(1)] show ?thesis
    by blast
qed

theorem matching_all_or_nothing_witness:
  "calculate_quiz_score
     [(''matching'', JDict [(''A'', JStr ''1''), (''B'', JStr ''wrong'')])]
     [(''matching'', JDict [(''pairs'', JList
        [JDict [(''term'', JStr ''A''), (''definition'', JStr ''1'')],
         JDict [(''term'', JStr ''B''), (''definition'', JStr ''2'')]])])] =
     Inr \<lparr>total_questions = 1, correct_answers = 0, score_percentage = 0,
          detailed_results =
            [(''matching'', JDict [(''correct'', JBool False),
               (''feedback'', JStr ''Partially correct. You got 1/2 matches right.''),
               (''explanation'', JStr [])])],
          feedback = [''You may need to review this topic more thoroughly.'']\<rparr> \<and>
   verdict \<lparr>total_questions = 1, correct_answers = 0, score_percentage = 0,
          detailed_results =
            [(''matching'', JDict [(''correct'', JBool False),
               (''feedback'', JStr ''Partially correct. You got 1/2 matches right.''),
               (''explanation'', JStr [])])],
          feedback = [''You may need to review this topic more thoroughly.'']\<rparr> ''matching'' =
     Some False"
proof -
  let ?a = "[(''matching'', JDict [(''A'', JStr ''1''), (''B'', JStr ''wrong'')])]"
  let ?pairs = "[JDict [(''term'', JStr ''A''), (''definition'', JStr ''1'')],
         JDict [(''term'', JStr ''B''), (''definition'', JStr ''2'')]]"
  let ?m = "[(''pairs'', JList ?pairs)]"
  let ?q = "[(''matching'', JDict ?m)]"
  let ?r = "\<lparr>total_questions = 1, correct_answers = 0, score_percentage = 0,
          detailed_results =
            [(''matching'', JDict [(''correct'', JBool False),
               (''feedback'', JStr ''Partially correct. You got 1/2 matches right.''),
               (''explanation'', JStr [])])],
          feedback = [''You may need to review this topic more thoroughly.'']\<rparr>"
  have h1: "calculate_quiz_score ?a ?q = Inr ?r"
    by (simp add: score_eval dec.simps digit_char_def)
  have h2: "map_of ?q ''matching'' = Some (JDict ?m)"
    by simp
  have h3: "dict_get ?m ''pairs'' (JList []) = JList ?pairs"
    by (simp add: dict_get_def)
  have "\<not> (\<forall>p \<in> set ?pairs. matched (dict_get ?a ''matching'' (JDict [])) p)"
    by (simp add: matched_def pair_match_def dict_get_def)
  with matching_all_or_nothing[OF h1 h2 h3] h1 show ?thesis
    by simp
qed



lemma matched_text_pair:
  "text_pair pair \<Longrightarrow> matched (JDict submitted) pair = exactly_answered submitted pair"
  by (auto simp: text_pair_def exactly_answered_def matched_def pair_match_def py_eq_JStr_iff
      dict_get_def split: json.splits option.splits)

text \<open>
  C10: the scorer matches a pair only by the exact stored text. When it returns on a
  record whose matching question has pairs of texts, and the submitted answers are a
  dict, the question is marked correct, and adds one to \<open>correct_answers\<close>, exactly when
  the submitted answers bind the term of every pair to the very text of its definition:
  no case folding, no trimming. So the scorer marks a submission \<open>paris\<close>, or \<open>Paris\<close>
  followed by a blank, incorrect against the definition \<open>Paris\<close>, while an \<open>mcq\<close>
  with the same two texts is marked correct. A matching question with an empty list
  of pairs is marked correct and adds one to \<open>correct_answers\<close>, whatever the submitted
  answers are.
\<close>

theorem matching_compares_exactly:
  "(\<forall>r. calculate_quiz_score answers quiz_data = Inr r \<and>
        map_of quiz_data ''matching'' = Some (JDict matching) \<and>
        dict_get matching ''pairs'' (JList []) = JList pairs \<and>
        dict_get answers ''matching'' (JDict []) = JDict submitted \<and>
        (\<forall>p \<in> set pairs. text_pair p) \<longrightarrow>
        verdict r ''matching'' = Some (\<forall>p \<in> set pairs. exactly_answered submitted p) \<and>
        credit r ''matching'' = (if \<forall>p \<in> set pairs. exactly_answered submitted p then 1 else 0) \<and>
        correct_answers r =
          credit r ''mcq'' + credit r ''true_false'' + credit r ''matching'' +
          credit r ''fill_blank'') \<and>
   calculate_quiz_score [(''matching'', JDict [(''capital'', JStr ''paris'')])]
     [(''matching'', JDict [(''pairs'', JList
        [JDict [(''term'', JStr ''capital''), (''definition'', JStr ''Paris'')]])])] =
     Inr \<lparr>total_questions = 1, correct_answers = 0, score_percentage = 0,
          detailed_results =
            [(''matching'', JDict [(''correct'', JBool False),
               (''feedback'', JStr ''Partially correct. You got 0/1 matches right.''),
               (''explanation'', JStr [])])],
          feedback = [''You may need to review this topic more thoroughly.'']\<rparr> \<and>
   calculate_quiz_score [(''matching'', JDict [(''capital'', JStr ''Paris '')])]
     [(''matching'', JDict [(''pairs'', JList
        [JDict [(''term'', JStr ''capital''), (''definition'', JStr ''Paris'')]])])] =
     Inr \<lparr>total_questions = 1, correct_answers = 0, score_percentage = 0,
          detailed_results =
            [(''matching'', JDict [(''correct'', JBool False),
               (''feedback'', JStr ''Partially correct. You got 0/1 matches right.''),
               (''explanation'', JStr [])])],
          feedback = [''You may need to review this topic more thoroughly.'']\<rparr> \<and>
   calculate_quiz_score [(''mcq'', JStr ''paris'')]
     [(''mcq'', JDict [(''correct_answer'', JStr ''Paris'')])] =
     Inr \<lparr>total_questions = 1, correct_answers = 1, score_percentage = 100,
          detailed_results =
            [(''mcq'', JDict [(''correct'', JBool True), (''feedback'', JStr ''Correct!'')])],
          feedback = [''Excellent! You have a strong understanding of this topic.'']\<rparr> \<and>
   (map_of quiz_data ''matching'' = Some (JDict matching) \<and>
    dict_get matching ''pairs'' (JList []) = JList [] \<longrightarrow>
      (\<exists>sr'. score_matching answers quiz_data sr = Inr sr' \<and>
             correct_answers sr' = correct_answers sr + 1 \<and>
             verdict sr' ''matching'' = Some True) \<and>
      (\<forall>r. calculate_quiz_score answers quiz_data = Inr r \<longrightarrow>
             verdict r ''matching'' = Some True \<and> credit r ''matching'' = 1))"
proof -
  have a: "verdict r ''matching'' = Some (\<forall>p \<in> set pairs. exactly_answered submitted p) \<and>
        credit r ''matching'' = (if \<forall>p \<in> set pairs. exactly_answered submitted p then 1 else 0) \<and>
        correct_answers r =
          credit r ''mcq'' + credit r ''true_false'' + credit r ''matching'' +
          credit r ''fill_blank''"
    if r: "calculate_quiz_score answers quiz_data = Inr r"
      and p: "map_of quiz_data ''matching'' = Some (JDict matching)"
      and q: "dict_get matching ''pairs'' (JList []) = JList pairs"
      and u: "dict_get answers ''matching'' (JDict []) = JDict submitted"
      and t: "\<forall>p \<in> set pairs. text_pair p" for r
  proof -
    from r obtain sr2 sr3 where
      s3: "score_matching answers quiz_data sr2 = Inr sr3" and
      f3: "map_of (detailed_results r) ''matching'' = map_of (detailed_results sr3) ''matching''"
      by (rule calculate_quiz_score_trace)
    obtain m items where m: "JDict matching = JDict m"
      and i: "py_iter (dict_get m ''pairs'' (JList [])) = Inr items"
      and e: "sr3 = (if \<forall>p \<in> set items. matched (dict_get answers ''matching'' (JDict [])) p
            then record_correct ''matching'' ''Perfect matching!'' (bump sr2)
            else record_incorrect ''matching''
                   (''Partially correct. You got '' @
                    dec (length (filter (matched (dict_get answers ''matching'' (JDict []))) items)) @
                    ''/'' @ dec (length items) @ '' matches right.'')
                   (dict_get m ''explanation'' (JStr [])) (bump sr2))"
      by (rule score_matching_present[OF p s3])
    from m i q have items: "items = pairs"
      by simp
    have same: "(\<forall>p \<in> set pairs. matched (JDict submitted) p) \<longleftrightarrow>
        (\<forall>p \<in> set pairs. exactly_answered submitted p)"
      using t by (simp add: matched_text_pair)
    have "verdict sr3 ''matching'' = Some (\<forall>p \<in> set pairs. matched (JDict submitted) p)"
      unfolding e items u by simp
    then have v: "verdict r ''matching'' = Some (\<forall>p \<in> set pairs. exactly_answered submitted p)"
      unfolding verdict_cong[OF f3] same .
    have c: "credit r ''matching'' =
        (if \<forall>p \<in> set pairs. exactly_answered submitted p then 1 else 0)"
      unfolding credit_def v by simp
    from v c correct_answers_credits[OF r] show ?thesis
      by (intro conjI)
  qed
  have b: "calculate_quiz_score [(''matching'', JDict [(''capital'', JStr ''paris'')])]
     [(''matching'', JDict [(''pairs'', JList
        [JDict [(''term'', JStr ''capital''), (''definition'', JStr ''Paris'')]])])] =
     Inr \<lparr>total_questions = 1, correct_answers = 0, score_percentage = 0,
          detailed_results =
            [(''matching'', JDict [(''correct'', JBool False),
               (''feedback'', JStr ''Partially correct. You got 0/1 matches right.''),
               (''explanation'', JStr [])])],
          feedback = [''You may need to review this topic more thoroughly.'']\<rparr>"
    by (simp add: score_eval dec.simps digit_char_def)
  have c: "calculate_quiz_score [(''matching'', JDict [(''capital'', JStr ''Paris '')])]
     [(''matching'', JDict [(''pairs'', JList
        [JDict [(''term'', JStr ''capital''), (''definition'', JStr ''Paris'')]])])] =
     Inr \<lparr>total_questions = 1, correct_answers = 0, score_percentage = 0,
          detailed_results =
            [(''matching'', JDict [(''correct'', JBool False),
               (''feedback'', JStr ''Partially correct. You got 0/1 matches right.''),
               (''explanation'', JStr [])])],
          feedback = [''You may need to review this topic more thoroughly.'']\<rparr>"
    by (simp add: score_eval dec.simps digit_char_def)
  have d: "calculate_quiz_score [(''mcq'', JStr ''paris'')]
     [(''mcq'', JDict [(''correct_answer'', JStr ''Paris'')])] =
     Inr \<lparr>total_questions = 1, correct_answers = 1, score_percentage = 100,
          detailed_results =
            [(''mcq'', JDict [(''correct'', JBool True), (''feedback'', JStr ''Correct!'')])],
          feedback = [''Excellent! You have a strong understanding of this topic.'']\<rparr>"
    by (simp add: score_eval)
  have e: "\<exists>sr'. score_matching answers quiz_data sr = Inr sr' \<and>
             correct_answers sr' = correct_answers sr + 1 \<and>
             verdict sr' ''matching'' = Some True"
    if "map_of quiz_data ''matching'' = Some (JDict matching)"
      and "dict_get matching ''pairs'' (JList []) = JList []"
  proof -
    from that have "score_matching answers quiz_data sr =
        Inr (record_correct ''matching'' ''Perfect matching!'' (bump sr))"
      by (simp add: score_matching_def bump_def)
    moreover have "correct_answers (record_correct ''matching'' ''Perfect matching!'' (bump sr)) =
        correct_answers sr + 1"
      by (simp add: record_correct_def bump_def)
    ultimately show ?thesis
      by simp
  qed
  have f: "verdict r ''matching'' = Some True \<and> credit r ''matching'' = 1"
    if p: "map_of quiz_data ''matching'' = Some (JDict matching)"
      and q: "dict_get matching ''pairs'' (JList []) = JList []"
      and r: "calculate_quiz_score answers quiz_data = Inr r" for r
  proof -
    from r obtain sr2 sr3 where
      s3: "score_matching answers quiz_data sr2 = Inr sr3" and
      f3: "map_of (detailed_results r) ''matching'' = map_of (detailed_results sr3) ''matching''"
      by (rule calculate_quiz_score_trace)
    from p q s3 have "sr3 = record_correct ''matching'' ''Perfect matching!'' (bump sr2)"
      by (simp add: score_matching_def bump_def)
    then have "verdict sr3 ''matching'' = Some True"
      by simp
    then show ?thesis
      unfolding credit_def verdict_cong[OF f3] by simp
  qed
  show ?thesis
  proof (intro conjI allI impI)
    fix r
    assume h: "calculate_quiz_score answers quiz_data = Inr r \<and>
        map_of quiz_data ''matching'' = Some (JDict matching) \<and>
        dict_get matching ''pairs'' (JList []) = JList pairs \<and>
        dict_get answers ''matching'' (JDict []) = JDict submitted \<and>
        (\<forall>p \<in> set pairs. text_pair p)"
    then have *: "verdict r ''matching'' = Some (\<forall>p \<in> set pairs. exactly_answered submitted p) \<and>
        credit r ''matching'' = (if \<forall>p \<in> set pairs. exactly_answered submitted p then 1 else 0) \<and>
        correct_answers r =
          credit r ''mcq'' + credit r ''true_false'' + credit r ''matching'' +
          credit r ''fill_blank''"
      by (intro a) simp_all
    from * show "verdict r ''matching'' = Some (\<forall>p \<in> set pairs. exactly_answered submitted p)"
      by (rule conjunct1)
    from * show "credit r ''matching'' =
        (if \<forall>p \<in> set pairs. exactly_answered submitted p then 1 else 0)"
      by (simp only:)
    from * show "correct_answers r =
          credit r ''mcq'' + credit r ''true_false'' + credit r ''matching'' +
          credit r ''fill_blank''"
      by (simp only:)
  next
    assume h: "map_of quiz_data ''matching'' = Some (JDict matching) \<and>
      dict_get matching ''pairs'' (JList []) = JList []"
    then show "\<exists>sr'. score_matching answers quiz_data sr = Inr sr' \<and>
             correct_answers sr' = correct_answers sr + 1 \<and>
             verdict sr' ''matching'' = Some True"
      by (intro e) simp_all
    fix r assume "calculate_quiz_score answers quiz_data = Inr r"
    with h have **: "verdict r ''matching'' = Some True \<and> credit r ''matching'' = 1"
      by (intro f) simp_all
    from ** show "verdict r ''matching'' = Some True" by (rule conjunct1)
    from ** show "credit r ''matching'' = 1" by (rule conjunct2)
  qed (rule b, rule c, rule d)
qed

text \<open>The witness: a matching question of two pairs answered with the exact texts, and
  one with no pair, scored against a submission that is not even a dict.\<close>

theorem matching_compares_exactly_witness:
  "calculate_quiz_score
     [(''matching'', JDict [(''capital'', JStr ''Paris''), (''river'', JStr ''Seine'')])]
     [(''matching'', JDict [(''pairs'', JList
        [JDict [(''term'', JStr ''capital''), (''definition'', JStr ''Paris'')],
         JDict [(''term'', JStr ''river''), (''definition'', JStr ''Seine'')]])])] =
     Inr \<lparr>total_questions = 1, correct_answers = 1, score_percentage = 100,
          detailed_results =
            [(''matching'', JDict [(''correct'', JBool True), (''feedback'', JStr ''Perfect matching!'')])],
          feedback = [''Excellent! You have a strong understanding of this topic.'']\<rparr> \<and>
   text_pair (JDict [(''term'', JStr ''capital''), (''definition'', JStr ''Paris'')]) \<and>
   text_pair (JDict [(''term'', JStr ''river''), (''definition'', JStr ''Seine'')]) \<and>
   exactly_answered [(''capital'', JStr ''Paris''), (''river'', JStr ''Seine'')]
     (JDict [(''term'', JStr ''capital''), (''definition'', JStr ''Paris'')]) \<and>
   exactly_answered [(''capital'', JStr ''Paris''), (''river'', JStr ''Seine'')]
     (JDict [(''term'', JStr ''river''), (''definition'', JStr ''Seine'')]) \<and>
   calculate_quiz_score [(''matching'', JInt 7)]
     [(''matching'', JDict [(''question'', JStr ''Match''), (''pairs'', JList [])])] =
     Inr \<lparr>total_questions = 1, correct_answers = 1, score_percentage = 100,
          detailed_results =
            [(''matching'', JDict [(''correct'', JBool True), (''feedback'', JStr ''Perfect matching!'')])],
          feedback = [''Excellent! You have a strong understanding of this topic.'']\<rparr> \<and>
   credit \<lparr>total_questions = 1, correct_answers = 1, score_percentage = 100,
          detailed_results =
            [(''matching'', JDict [(''correct'', JBool True), (''feedback'', JStr ''Perfect matching!'')])],
          feedback = [''Excellent! You have a strong understanding of this topic.'']\<rparr> ''matching'' = 1"
proof -
  let ?sub = "[(''capital'', JStr ''Paris''), (''river'', JStr ''Seine'')]"
  let ?pairs = "[JDict [(''term'', JStr ''capital''), (''definition'', JStr ''Paris'')],
         JDict [(''term'', JStr ''river''), (''definition'', JStr ''Seine'')]]"
  let ?m = "[(''pairs'', JList ?pairs)]"
  let ?q = "[(''matching'', JDict ?m)]"
  let ?a = "[(''matching'', JDict ?sub)]"
  let ?em = "[(''question'', JStr ''Match''), (''pairs'', JList [])]"
  let ?eq = "[(''matching'', JDict ?em)]"
  let ?ea = "[(''matching'', JInt 7)]"
  let ?sr = "\<lparr>total_questions = 0, correct_answers = 0, score_percentage = 0,
             detailed_results = [], feedback = []\<rparr>"
  let ?r = "\<lparr>total_questions = 1, correct_answers = 1, score_percentage = 100,
          detailed_results =
            [(''matching'', JDict [(''correct'', JBool True), (''feedback'', JStr ''Perfect matching!'')])],
          feedback = [''Excellent! You have a strong understanding of this topic.'']\<rparr>"
  note first = matching_compares_exactly[of ?a ?q ?m ?pairs ?sub ?sr, THEN conjunct1]
  note last = matching_compares_exactly[of ?ea ?eq ?em "[]" "[]" ?sr,
      THEN conjunct2, THEN conjunct2, THEN conjunct2, THEN conjunct2]
  have h1: "calculate_quiz_score ?a ?q = Inr ?r"
    by (simp add: score_eval)
  have h2: "map_of ?q ''matching'' = Some (JDict ?m)"
    "dict_get ?m ''pairs'' (JList []) = JList ?pairs"
    "dict_get ?a ''matching'' (JDict []) = JDict ?sub"
    by (simp_all add: dict_get_def)
  have h3: "\<forall>p \<in> set ?pairs. text_pair p"
    by (simp add: text_pair_def dict_get_def)
  have h4: "\<forall>p \<in> set ?pairs. exactly_answered ?sub p"
    by (simp add: exactly_answered_def dict_get_def)
  from first[rule_format, of ?r] h1 h2 h3
  have v: "verdict ?r ''matching'' = Some (\<forall>p \<in> set ?pairs. exactly_answered ?sub p)"
    by blast
  have g1: "map_of ?eq ''matching'' = Some (JDict ?em) \<and> dict_get ?em ''pairs'' (JList []) = JList []"
    by (simp add: dict_get_def)
  have g2: "calculate_quiz_score ?ea ?eq = Inr ?r"
    by (simp add: score_eval)
  from last g1 g2 have c: "credit ?r ''matching'' = 1"
    by blast
  from h1 h3 h4 g2 c v show ?thesis
    by simp
qed

section \<open>Claims about validation\<close>

lemma check_mcq_objects:
  assumes "checked_questions_are_objects q"
  shows "check_mcq q vr = Inr (vr\<lparr>warnings := warnings vr @ mcq_warnings q\<rparr>)"
proof (cases "map_of q ''mcq''")
  case None
  then show ?thesis
    by (simp add: check_mcq_def mcq_warnings_def)
next
  case (Some mv)
  with assms obtain mcq where m: "mv = JDict mcq"
    by (cases mv) (simp_all add: checked_questions_are_objects_def)
  from assms Some m obtain options where o: "dict_get mcq ''options'' (JList []) = JList options"
    by (cases "dict_get mcq ''options'' (JList [])")
       (simp_all add: checked_questions_are_objects_def)
  from Some m o show ?thesis
    by (simp add: check_mcq_def mcq_warnings_def all_keys_in_JDict del: all_keys_in.simps)
qed

lemma check_true_false_objects:
  assumes "checked_questions_are_objects q"
  shows "check_true_false q vr = Inr (vr\<lparr>warnings := warnings vr @ true_false_warnings q\<rparr>)"
proof (cases "map_of q ''true_false''")
  case None
  then show ?thesis
    by (simp add: check_true_false_def true_false_warnings_def)
next
  case (Some mv)
  with assms obtain tf where m: "mv = JDict tf"
    by (cases mv) (simp_all add: checked_questions_are_objects_def)
  from Some m show ?thesis
    by (simp add: check_true_false_def true_false_warnings_def all_keys_in_JDict
        del: all_keys_in.simps)
qed




section \<open>Claims about generation\<close>

text \<open>
  C3, as it stands, fails in two places. A reply that the parser rejects with an
  exception other than \<^verbatim>\<open>JSONDecodeError\<close> (a reply of 4301 digits) gives a record with
  an error message only, without the raw reply and without the marker of a parse error;
  and a reply that parses to a value that is no record (\<^verbatim>\<open>null\<close>) is returned as it
  is, with no tag.
\<close>

theorem generate_quiz_questions_tagged_counterexample:
  "generate_quiz_questions digits_service digits_loads ''Cells divide.'' ''General''
     ''Intermediate'' =
     Inr (JDict [(''error'', JStr (''Failed to generate quiz: '' @
       ''Exceeds the limit (4300 digits) for integer string conversion: value has 4301 digits; use sys.set_int_max_str_digits() to increase the limit''))]) \<and>
   \<not> has_key [(''error'', JStr (''Failed to generate quiz: '' @
       ''Exceeds the limit (4300 digits) for integer string conversion: value has 4301 digits; use sys.set_int_max_str_digits() to increase the limit''))]
     ''raw_content'' \<and>
   generate_quiz_questions null_service null_loads ''Cells divide.'' ''General''
     ''Intermediate'' = Inr JNull \<and>
   \<not> is_dict JNull"
  by (simp add: generate_quiz_questions_def request_quiz_def parse_reply_def digits_service_def
      digits_loads_def null_service_def null_loads_def has_key_def)

text \<open>
  C3, amended: no exception leaves \<open>generate_quiz_questions\<close>. For every chunk, topic
  and difficulty, and whatever the service and the parser do, the call returns a value.
  When the parser rejects the reply with \<^verbatim>\<open>JSONDecodeError\<close>, the value is the record
  with the raw reply and the marker \<open>Failed to parse JSON\<close>. When the service call
  raises, when the reply holds no text, and when the parser raises any other exception,
  it is a record with the one key \<open>error\<close>, whose text ends with the text of the
  exception. When the reply parses, the value is the parsed one, whatever it is. So a
  value that is returned is the parsed reply or a record with the key \<open>error\<close>.
\<close>

theorem generate_quiz_questions_never_raises:
  "(\<exists>quiz. generate_quiz_questions svc loads chunk topic difficulty = Inr quiz) \<and>
   (\<forall>content msg.
      svc system_prompt (user_prompt chunk topic difficulty) = Inr (Some content) \<and>
      loads content = Inl (JSONDecodeError msg) \<longrightarrow>
      generate_quiz_questions svc loads chunk topic difficulty =
        Inr (JDict [(''raw_content'', JStr content), (''error'', JStr ''Failed to parse JSON'')])) \<and>
   (\<forall>content msg.
      svc system_prompt (user_prompt chunk topic difficulty) = Inr (Some content) \<and>
      loads content = Inl (OtherException msg) \<longrightarrow>
      generate_quiz_questions svc loads chunk topic difficulty =
        Inr (JDict [(''error'', JStr (''Failed to generate quiz: '' @ msg))])) \<and>
   (svc system_prompt (user_prompt chunk topic difficulty) = Inr None \<longrightarrow>
      generate_quiz_questions svc loads chunk topic difficulty =
        Inr (JDict [(''error'', JStr (''Failed to generate quiz: '' @
          ''the JSON object must be str, bytes or bytearray, not NoneType''))])) \<and>
   (\<forall>e. svc system_prompt (user_prompt chunk topic difficulty) = Inl e \<longrightarrow>
      generate_quiz_questions svc loads chunk topic difficulty =
        Inr (JDict [(''error'', JStr (''Failed to generate quiz: '' @ exn_str e))])) \<and>
   (\<forall>content quiz_data.
      svc system_prompt (user_prompt chunk topic difficulty) = Inr (Some content) \<and>
      loads content = Inr quiz_data \<longrightarrow>
      generate_quiz_questions svc loads chunk topic difficulty = Inr quiz_data) \<and>
   (\<forall>quiz. generate_quiz_questions svc loads chunk topic difficulty = Inr quiz \<longrightarrow>
      (\<exists>content. svc system_prompt (user_prompt chunk topic difficulty) = Inr (Some content) \<and>
                 loads content = Inr quiz) \<or>
      (\<exists>d. quiz = JDict d \<and> has_key d ''error''))"
proof -
  have a: "\<exists>quiz. generate_quiz_questions svc loads chunk topic difficulty = Inr quiz"
    by (rule generate_quiz_questions_returns)
  have b: "generate_quiz_questions svc loads chunk topic difficulty =
        Inr (JDict [(''raw_content'', JStr content), (''error'', JStr ''Failed to parse JSON'')])"
    if "svc system_prompt (user_prompt chunk topic difficulty) = Inr (Some content) \<and>
      loads content = Inl (JSONDecodeError msg)" for content msg
    using that by (simp add: generate_quiz_questions_def request_quiz_def parse_reply_def)
  have b': "generate_quiz_questions svc loads chunk topic difficulty =
        Inr (JDict [(''error'', JStr (''Failed to generate quiz: '' @ msg))])"
    if "svc system_prompt (user_prompt chunk topic difficulty) = Inr (Some content) \<and>
      loads content = Inl (OtherException msg)" for content msg
    using that by (simp add: generate_quiz_questions_def request_quiz_def parse_reply_def)
  have n: "generate_quiz_questions svc loads chunk topic difficulty =
        Inr (JDict [(''error'', JStr (''Failed to generate quiz: '' @
          ''the JSON object must be str, bytes or bytearray, not NoneType''))])"
    if "svc system_prompt (user_prompt chunk topic difficulty) = Inr None"
    using that by (simp add: generate_quiz_questions_def request_quiz_def)
  have c: "generate_quiz_questions svc loads chunk topic difficulty =
        Inr (JDict [(''error'', JStr (''Failed to generate quiz: '' @ exn_str e))])"
    if "svc system_prompt (user_prompt chunk topic difficulty) = Inl e" for e
    using that by (simp add: generate_quiz_questions_def request_quiz_def)
  have d: "generate_quiz_questions svc loads chunk topic difficulty = Inr quiz_data"
    if "svc system_prompt (user_prompt chunk topic difficulty) = Inr (Some content) \<and>
      loads content = Inr quiz_data" for content quiz_data
    using that by (simp add: generate_quiz_questions_def request_quiz_def parse_reply_def)
  have e: "(\<exists>content. svc system_prompt (user_prompt chunk topic difficulty) = Inr (Some content) \<and>
                 loads content = Inr quiz) \<or>
      (\<exists>d. quiz = JDict d \<and> has_key d ''error'')"
    if "generate_quiz_questions svc loads chunk topic difficulty = Inr quiz" for quiz
    using that
    by (auto simp: generate_quiz_questions_def request_quiz_def parse_reply_def has_key_def
        split: sum.splits option.splits exn.splits)
  from a b b' n c d e show ?thesis
    by blast
qed

text \<open>The witness: a reply that is not JSON, with a parser that rejects it; a reply of
  too many digits; a reply with no text; a service that raises; a reply that parses.\<close>

theorem generate_quiz_questions_never_raises_witness:
  "generate_quiz_questions (\<lambda>s u. Inr (Some ''Sorry, no quiz.''))
     (\<lambda>t. Inl (JSONDecodeError ''Expecting value'')) ''Cells divide.'' ''General'' ''Intermediate'' =
     Inr (JDict [(''raw_content'', JStr ''Sorry, no quiz.''), (''error'', JStr ''Failed to parse JSON'')]) \<and>
   generate_quiz_questions (\<lambda>s u. Inr (Some ''11111''))
     (\<lambda>t. Inl (OtherException ''Exceeds the limit'')) ''Cells divide.'' ''General'' ''Intermediate'' =
     Inr (JDict [(''error'', JStr ''Failed to generate quiz: Exceeds the limit'')]) \<and>
   generate_quiz_questions (\<lambda>s u. Inr None)
     (\<lambda>t. Inr JNull) ''Cells divide.'' ''General'' ''Intermediate'' =
     Inr (JDict [(''error'', JStr ''Failed to generate quiz: the JSON object must be str, bytes or bytearray, not NoneType'')]) \<and>
   generate_quiz_questions (\<lambda>s u. Inl (OtherException ''timeout''))
     (\<lambda>t. Inr JNull) ''Cells divide.'' ''General'' ''Intermediate'' =
     Inr (JDict [(''error'', JStr ''Failed to generate quiz: timeout'')]) \<and>
   generate_quiz_questions (\<lambda>s u. Inr (Some ''{}''))
     (\<lambda>t. Inr (JDict [])) ''Cells divide.'' ''General'' ''Intermediate'' = Inr (JDict [])"
  using
    generate_quiz_questions_never_raises[of "\<lambda>s u. Inr (Some ''Sorry, no quiz.'')"
      "\<lambda>t. Inl (JSONDecodeError ''Expecting value'')" "''Cells divide.''" "''General''"
      "''Intermediate''"]
    generate_quiz_questions_never_raises[of "\<lambda>s u. Inr (Some ''11111'')"
      "\<lambda>t. Inl (OtherException ''Exceeds the limit'')" "''Cells divide.''" "''General''"
      "''Intermediate''"]
    generate_quiz_questions_never_raises[of "\<lambda>s u. Inr None"
      "\<lambda>t. Inr JNull" "''Cells divide.''" "''General''" "''Intermediate''"]
    generate_quiz_questions_never_raises[of "\<lambda>s u. Inl (OtherException ''timeout'')"
      "\<lambda>t. Inr JNull" "''Cells divide.''" "''General''" "''Intermediate''"]
    generate_quiz_questions_never_raises[of "\<lambda>s u. Inr (Some ''{}'')"
      "\<lambda>t. Inr (JDict [])" "''Cells divide.''" "''General''" "''Intermediate''"]
  by simp

lemma batch_loop_result:
  "\<exists>new. batch_loop svc loads topics difficulties i chunks quizzes = Inr (quizzes @ new) \<and>
     length new = length chunks \<and>
     (\<forall>j < length chunks. \<exists>quiz.
        generate_quiz_questions (svc (i + j)) loads (chunks ! j)
          (round_topic topics (i + j)) (round_difficulty difficulties (i + j)) = Inr quiz \<and>
        new ! j = batch_entry (i + j) (chunks ! j)
          (round_topic topics (i + j)) (round_difficulty difficulties (i + j)) quiz)"
proof (induction chunks arbitrary: i quizzes)
  case Nil
  then show ?case by simp
next
  case (Cons chunk rest)
  let ?topic = "round_topic topics i"
  let ?difficulty = "round_difficulty difficulties i"
  obtain quiz where q: "generate_quiz_questions (svc i) loads chunk ?topic ?difficulty = Inr quiz"
    using generate_quiz_questions_returns by blast
  let ?entry = "batch_entry i chunk ?topic ?difficulty quiz"
  from Cons.IH[of "Suc i" "quizzes @ [?entry]"] obtain new where
    n: "batch_loop svc loads topics difficulties (Suc i) rest (quizzes @ [?entry]) =
          Inr ((quizzes @ [?entry]) @ new)" and
    l: "length new = length rest" and
    e: "\<forall>j < length rest. \<exists>quiz.
        generate_quiz_questions (svc (Suc i + j)) loads (rest ! j)
          (round_topic topics (Suc i + j)) (round_difficulty difficulties (Suc i + j)) = Inr quiz \<and>
        new ! j = batch_entry (Suc i + j) (rest ! j)
          (round_topic topics (Suc i + j)) (round_difficulty difficulties (Suc i + j)) quiz"
    by blast
  have r: "batch_loop svc loads topics difficulties i (chunk # rest) quizzes =
      Inr (quizzes @ (?entry # new))"
    using q n by (simp add: Let_def)
  have "\<exists>quiz.
        generate_quiz_questions (svc (i + j)) loads ((chunk # rest) ! j)
          (round_topic topics (i + j)) (round_difficulty difficulties (i + j)) = Inr quiz \<and>
        (?entry # new) ! j = batch_entry (i + j) ((chunk # rest) ! j)
          (round_topic topics (i + j)) (round_difficulty difficulties (i + j)) quiz"
    if j: "j < length (chunk # rest)" for j
  proof (cases j)
    case 0
    with q show ?thesis by simp
  next
    case (Suc k)
    with j have "k < length rest" by simp
    with e Suc show ?thesis by simp
  qed
  with r l show ?case
    by (intro exI[of _ "?entry # new"]) simp
qed

lemma batch_entry_index:
  "py_get (batch_entry i chunk topic difficulty quiz) ''chunk_index'' JNull = Inr (JInt (int i))"
  by (cases quiz) (simp_all add: batch_entry_def dict_get_def update_conv')

lemma batch_entry_preview:
  "py_get (batch_entry i chunk topic difficulty quiz) ''chunk_preview'' JNull =
     Inr (JStr (chunk_preview chunk))"
  by (cases quiz) (simp_all add: batch_entry_def dict_get_def update_conv')

text \<open>
  C2: the batch has one record for each chunk, in the order of the chunks.
  \<open>generate_quiz_batch\<close> returns a list as long as the list of chunks; its entry \<open>i\<close> is
  made from the quiz generated for chunk \<open>i\<close> with the topic and the difficulty of index
  \<open>i\<close>, and carries the index \<open>i\<close> and the preview of chunk \<open>i\<close>. The topic is
  \<open>General\<close> and the difficulty \<open>Intermediate\<close> when the sequence is absent or ends
  before the index.
\<close>

theorem generate_quiz_batch_one_per_chunk:
  "(\<exists>quizzes. generate_quiz_batch svc loads chunks topics difficulties = Inr quizzes \<and>
      length quizzes = length chunks \<and>
      (\<forall>i < length chunks. \<exists>quiz.
         generate_quiz_questions (svc i) loads (chunks ! i)
           (topic_for topics i) (difficulty_for difficulties i) = Inr quiz \<and>
         quizzes ! i = batch_entry i (chunks ! i)
           (topic_for topics i) (difficulty_for difficulties i) quiz \<and>
         py_get (quizzes ! i) ''chunk_index'' JNull = Inr (JInt (int i)) \<and>
         py_get (quizzes ! i) ''chunk_preview'' JNull = Inr (JStr (chunk_preview (chunks ! i))))) \<and>
   (\<forall>i. (topics = None \<or> (\<exists>ts. topics = Some ts \<and> length ts \<le> i)) \<longrightarrow>
        topic_for topics i = ''General'') \<and>
   (\<forall>i. (difficulties = None \<or> (\<exists>ds. difficulties = Some ds \<and> length ds \<le> i)) \<longrightarrow>
        difficulty_for difficulties i = ''Intermediate'')"
proof -
  define ts where "ts = (case topics of None \<Rightarrow> replicate (length chunks) ''General'' | Some ts \<Rightarrow> ts)"
  define ds where "ds = (case difficulties of None \<Rightarrow> replicate (length chunks) ''Intermediate''
                          | Some ds \<Rightarrow> ds)"
  have t: "round_topic ts i = topic_for topics i"
    if "i < length chunks" for i
    using that by (simp add: ts_def topic_for_def round_topic_def split: option.splits)
  have d: "round_difficulty ds i = difficulty_for difficulties i"
    if "i < length chunks" for i
    using that by (simp add: ds_def difficulty_for_def round_difficulty_def split: option.splits)
  from batch_loop_result[of svc loads ts ds 0 chunks "[]"] obtain new where
    n: "batch_loop svc loads ts ds 0 chunks [] = Inr new" and
    l: "length new = length chunks" and
    e: "\<forall>j < length chunks. \<exists>quiz.
        generate_quiz_questions (svc j) loads (chunks ! j)
          (round_topic ts j) (round_difficulty ds j) = Inr quiz \<and>
        new ! j = batch_entry j (chunks ! j) (round_topic ts j) (round_difficulty ds j) quiz"
    by auto
  have b: "generate_quiz_batch svc loads chunks topics difficulties = Inr new"
    using n by (simp add: generate_quiz_batch_def ts_def ds_def)
  have per: "\<exists>quiz.
         generate_quiz_questions (svc i) loads (chunks ! i)
           (topic_for topics i) (difficulty_for difficulties i) = Inr quiz \<and>
         new ! i = batch_entry i (chunks ! i)
           (topic_for topics i) (difficulty_for difficulties i) quiz \<and>
         py_get (new ! i) ''chunk_index'' JNull = Inr (JInt (int i)) \<and>
         py_get (new ! i) ''chunk_preview'' JNull = Inr (JStr (chunk_preview (chunks ! i)))"
    if i: "i < length chunks" for i
  proof -
    from e i obtain quiz where
      "generate_quiz_questions (svc i) loads (chunks ! i)
          (round_topic ts i) (round_difficulty ds i) = Inr quiz"
      "new ! i = batch_entry i (chunks ! i) (round_topic ts i) (round_difficulty ds i) quiz"
      by blast
    then show ?thesis
      unfolding t[OF i] d[OF i] by (simp add: batch_entry_index batch_entry_preview)
  qed
  have first: "\<exists>quizzes. generate_quiz_batch svc loads chunks topics difficulties = Inr quizzes \<and>
      length quizzes = length chunks \<and>
      (\<forall>i < length chunks. \<exists>quiz.
         generate_quiz_questions (svc i) loads (chunks ! i)
           (topic_for topics i) (difficulty_for difficulties i) = Inr quiz \<and>
         quizzes ! i = batch_entry i (chunks ! i)
           (topic_for topics i) (difficulty_for difficulties i) quiz \<and>
         py_get (quizzes ! i) ''chunk_index'' JNull = Inr (JInt (int i)) \<and>
         py_get (quizzes ! i) ''chunk_preview'' JNull = Inr (JStr (chunk_preview (chunks ! i))))"
  proof (intro exI[of _ new] conjI allI impI)
    show "generate_quiz_batch svc loads chunks topics difficulties = Inr new"
      by (rule b)
    show "length new = length chunks"
      by (rule l)
    show "\<exists>quiz.
         generate_quiz_questions (svc i) loads (chunks ! i)
           (topic_for topics i) (difficulty_for difficulties i) = Inr quiz \<and>
         new ! i = batch_entry i (chunks ! i)
           (topic_for topics i) (difficulty_for difficulties i) quiz \<and>
         py_get (new ! i) ''chunk_index'' JNull = Inr (JInt (int i)) \<and>
         py_get (new ! i) ''chunk_preview'' JNull = Inr (JStr (chunk_preview (chunks ! i)))"
      if "i < length chunks" for i
      using that by (rule per)
  qed
  have second: "\<forall>i. (topics = None \<or> (\<exists>ts. topics = Some ts \<and> length ts \<le> i)) \<longrightarrow>
        topic_for topics i = ''General''"
    by (auto simp: topic_for_def)
  have third: "\<forall>i. (difficulties = None \<or> (\<exists>ds. difficulties = Some ds \<and> length ds \<le> i)) \<longrightarrow>
        difficulty_for difficulties i = ''Intermediate''"
    by (auto simp: difficulty_for_def)
  from first second third show ?thesis
    by (intro conjI)
qed

text \<open>The witness: two chunks, one topic, no difficulties. The service answers the first
  call and fails at the second; the second record is the placeholder, with the default
  topic and difficulty.\<close>

theorem generate_quiz_batch_one_per_chunk_witness:
  "\<exists>quizzes.
     generate_quiz_batch
       (\<lambda>i s u. if i = 0 then Inr (Some ''reply'') else Inl (OtherException ''timeout''))
       (\<lambda>t. Inr (JDict [(''topic'', JStr ''Cells'')]))
       [''Cells divide.'', ''Stars burn.''] (Some [''Biology'']) None = Inr quizzes \<and>
     length quizzes = 2 \<and>
     quizzes ! 0 = JDict [(''topic'', JStr ''Cells''), (''chunk_index'', JInt 0),
                          (''chunk_preview'', JStr ''Cells divide.'')] \<and>
     quizzes ! 1 = JDict [(''chunk_index'', JInt 1), (''chunk_preview'', JStr ''Stars burn.''),
                          (''topic'', JStr ''General''), (''difficulty'', JStr ''Intermediate''),
                          (''error'', JStr ''Quiz generation failed for this chunk'')]"
proof -
  let ?svc = "\<lambda>i s u. if i = (0::nat) then Inr (Some ''reply'')
                       else Inl (OtherException ''timeout'')"
  let ?loads = "\<lambda>t::string. Inr (JDict [(''topic'', JStr ''Cells'')]) :: exn + json"
  let ?chunks = "[''Cells divide.'', ''Stars burn.'']"
  note inst = generate_quiz_batch_one_per_chunk[of ?svc ?loads ?chunks "Some [''Biology'']" None]
  from inst[THEN conjunct1] obtain quizzes where
    all: "generate_quiz_batch ?svc ?loads ?chunks (Some [''Biology'']) None = Inr quizzes \<and>
      length quizzes = length ?chunks \<and>
      (\<forall>i < length ?chunks. \<exists>quiz.
         generate_quiz_questions (?svc i) ?loads (?chunks ! i)
           (topic_for (Some [''Biology'']) i) (difficulty_for None i) = Inr quiz \<and>
         quizzes ! i = batch_entry i (?chunks ! i)
           (topic_for (Some [''Biology'']) i) (difficulty_for None i) quiz \<and>
         py_get (quizzes ! i) ''chunk_index'' JNull = Inr (JInt (int i)) \<and>
         py_get (quizzes ! i) ''chunk_preview'' JNull = Inr (JStr (chunk_preview (?chunks ! i))))" ..
  note b = all[THEN conjunct1] and l = all[THEN conjunct2, THEN conjunct1]
    and e = all[THEN conjunct2, THEN conjunct2]
  have "\<exists>quiz.
         generate_quiz_questions (?svc 0) ?loads (?chunks ! 0)
           (topic_for (Some [''Biology'']) 0) (difficulty_for None 0) = Inr quiz \<and>
         quizzes ! 0 = batch_entry 0 (?chunks ! 0)
           (topic_for (Some [''Biology'']) 0) (difficulty_for None 0) quiz"
    using e[rule_format, of 0] by simp blast
  then have q0: "quizzes ! 0 = JDict [(''topic'', JStr ''Cells''), (''chunk_index'', JInt 0),
                          (''chunk_preview'', JStr ''Cells divide.'')]"
    by (auto simp: generate_quiz_questions_def request_quiz_def parse_reply_def batch_entry_def
        chunk_preview_def has_key_def topic_for_def difficulty_for_def)
  have "\<exists>quiz.
         generate_quiz_questions (?svc 1) ?loads (?chunks ! 1)
           (topic_for (Some [''Biology'']) 1) (difficulty_for None 1) = Inr quiz \<and>
         quizzes ! 1 = batch_entry 1 (?chunks ! 1)
           (topic_for (Some [''Biology'']) 1) (difficulty_for None 1) quiz"
    using e[rule_format, of 1] by simp blast
  then have q1: "quizzes ! 1 = JDict [(''chunk_index'', JInt 1), (''chunk_preview'', JStr ''Stars burn.''),
                          (''topic'', JStr ''General''), (''difficulty'', JStr ''Intermediate''),
                          (''error'', JStr ''Quiz generation failed for this chunk'')]"
    by (auto simp: generate_quiz_questions_def request_quiz_def parse_reply_def batch_entry_def
        chunk_preview_def has_key_def topic_for_def difficulty_for_def)
  from b l q0 q1 show ?thesis
    by simp
qed

section \<open>Claims about export\<close>

lemma starts_with_append [simp]: "starts_with p (p @ r)"
  by (induction p) simp_all

lemma sections_text_Inr:
  "sections_text i quiz_data = Inr body \<Longrightarrow>
     \<exists>sections. length sections = length quiz_data \<and> body = concat sections \<and>
       (\<forall>j < length quiz_data. quiz_section (i + j) (quiz_data ! j) = Inr (sections ! j))"
proof (induction quiz_data arbitrary: i body)
  case Nil
  then show ?case by simp
next
  case (Cons quiz rest)
  from Cons.prems obtain s more where s: "quiz_section i quiz = Inr s"
    and m: "sections_text (Suc i) rest = Inr more" and b: "body = s @ more"
    by (auto simp: bnd_Inr_iff)
  from Cons.IH[OF m] obtain sections where l: "length sections = length rest"
    and c: "more = concat sections"
    and e: "\<forall>j < length rest. quiz_section (Suc i + j) (rest ! j) = Inr (sections ! j)"
    by blast
  have "quiz_section (i + j) ((quiz # rest) ! j) = Inr ((s # sections) ! j)"
    if "j < length (quiz # rest)" for j
  proof (cases j)
    case 0
    with s show ?thesis by simp
  next
    case (Suc k)
    with that e show ?thesis by simp
  qed
  with l b c show ?case
    by (intro exI[of _ "s # sections"]) simp
qed

lemma sections_text_all:
  "(\<forall>j < length quiz_data. \<exists>s. quiz_section (i + j) (quiz_data ! j) = Inr s) \<Longrightarrow>
     \<exists>body. sections_text i quiz_data = Inr body"
proof (induction quiz_data arbitrary: i)
  case Nil
  then show ?case by simp
next
  case (Cons quiz rest)
  from Cons.prems[rule_format, of 0] obtain s where s: "quiz_section i quiz = Inr s"
    by auto
  have "\<forall>j < length rest. \<exists>s. quiz_section (Suc i + j) (rest ! j) = Inr s"
  proof (intro allI impI)
    fix j assume "j < length rest"
    with Cons.prems[rule_format, of "Suc j"] show "\<exists>s. quiz_section (Suc i + j) (rest ! j) = Inr s"
      by simp
  qed
  from Cons.IH[OF this] obtain more where "sections_text (Suc i) rest = Inr more"
    by blast
  with s show ?case by simp
qed

lemma quiz_section_invalid: "\<not> is_record quiz \<Longrightarrow> quiz_section i quiz = Inr (invalid_section i)"
  by (cases quiz) (simp_all add: quiz_section_def is_record_def)

lemma quiz_section_record:
  assumes "quiz_section i (JDict d) = Inr section" and "is_record (JDict d)"
  shows "\<exists>mcq. mcq_text d = Inr mcq \<and>
           section = section_head i d @ mcq @ true_false_text d @ matching_text d @
                     fill_blank_text d @ ''---'' @ nl @ nl"
  using assms by (auto simp: quiz_section_def is_record_def bnd_Inr_iff)

lemma quiz_section_heading:
  "quiz_section i quiz = Inr section \<Longrightarrow> starts_with (''## Quiz '' @ dec (i + 1)) section"
proof (cases "is_record quiz")
  case False
  assume "quiz_section i quiz = Inr section"
  with quiz_section_invalid[OF False, of i]
  have "section = (''## Quiz '' @ dec (i + 1)) @ ('' - Invalid Quiz'' @ nl @ nl @
     ''**Error:** This quiz could not be generated properly.'' @ nl @ nl @ ''---'' @ nl @ nl)"
    by (simp add: invalid_section_def)
  then show ?thesis
    by (simp only: starts_with_append)
next
  case True
  assume q: "quiz_section i quiz = Inr section"
  from True obtain d where d: "quiz = JDict d"
    by (cases quiz) (simp_all add: is_record_def)
  from quiz_section_record[OF q[unfolded d] True[unfolded d]] obtain mcq where
    "section = section_head i d @ mcq @ true_false_text d @ matching_text d @
                     fill_blank_text d @ ''---'' @ nl @ nl"
    by blast
  then have "section = (''## Quiz '' @ dec (i + 1)) @ (nl @ nl @
     ''**Topic:** '' @ written (dict_get d ''topic'' (JStr ''N/A'')) @ nl @
     ''**Difficulty:** '' @ written (dict_get d ''difficulty'' (JStr ''N/A'')) @ nl @ nl @
     mcq @ true_false_text d @ matching_text d @ fill_blank_text d @ ''---'' @ nl @ nl)"
    by (simp add: section_head_def)
  then show ?thesis
    by (simp only: starts_with_append)
qed

lemma mcq_text_block:
  "mcq_text d = Inr mcq \<Longrightarrow>
     (if has_block d ''mcq'' then starts_with ''### 1. Multiple Choice Question'' mcq
      else mcq = [])"
  by (auto simp: mcq_text_def has_block_def bnd_Inr_iff split: option.splits json.splits)

lemma true_false_text_block:
  "if has_block d ''true_false''
   then starts_with ''### 2. True/False Question'' (true_false_text d)
   else true_false_text d = []"
  by (auto simp: true_false_text_def has_block_def split: option.splits json.splits)

lemma matching_text_block:
  "if has_block d ''matching''
   then starts_with ''### 3. Matching Question'' (matching_text d)
   else matching_text d = []"
  by (auto simp: matching_text_def has_block_def split: option.splits json.splits)

lemma fill_blank_text_block:
  "if has_block d ''fill_blank''
   then starts_with ''### 4. Fill in the Blank'' (fill_blank_text d)
   else fill_blank_text d = []"
  by (auto simp: fill_blank_text_def has_block_def split: option.splits json.splits)

lemma chr_utf8_below_surrogates: "n < 0xD800 \<Longrightarrow> \<exists>letter. chr_utf8 n = Inr letter"
  by (simp add: chr_utf8_def)

lemma options_text_surrogate:
  "97 + j \<le> 0xD800 \<Longrightarrow> 0xD800 < 97 + j + length options \<Longrightarrow>
     options_text j options = Inl UnicodeEncodeError"
proof (induction options arbitrary: j)
  case Nil
  then show ?case by simp
next
  case (Cons option rest)
  show ?case
  proof (cases "97 + j = 0xD800")
    case True
    then have "chr_utf8 (97 + j) = Inl UnicodeEncodeError"
      by (simp add: chr_utf8_def)
    then show ?thesis
      by simp
  next
    case False
    with Cons.prems have lt: "97 + j < 0xD800"
      by simp
    then obtain letter where l: "chr_utf8 (97 + j) = Inr letter"
      using chr_utf8_below_surrogates by blast
    from lt Cons.prems have "options_text (j + 1) rest = Inl UnicodeEncodeError"
      by (intro Cons.IH) simp_all
    with l show ?thesis
      by simp
  qed
qed




section \<open>Claims about the package\<close>

text \<open>
  C8 does not hold of the code: \<^verbatim>\<open>create_quiz_package\<close> writes the summary with a bare
  \<^verbatim>\<open>with open(...)\<close> and \<^verbatim>\<open>json.dump\<close>, outside any \<^verbatim>\<open>try\<close>, whereas the two exports it
  calls catch every exception and return \<^verbatim>\<open>False\<close>. For a batch of one well-formed record
  and the directory \<open>out\<close>, which is created: when the summary file cannot be opened, the
  \<^verbatim>\<open>OSError\<close> reaches the caller, although the directory was created; when the two
  exports cannot open their files and the summary can, the call returns the directory.
\<close>

theorem create_quiz_package_summary_failure_propagates:
  "create_quiz_package always_mkdir summary_closed ''20240101_120000'' ''2024-01-01T12:00:00''
     [JDict [(''topic'', JStr ''Cells''), (''difficulty'', JStr ''Beginner''),
             (''true_false'', JDict [(''question'', JStr ''Cells divide.''),
                                     (''correct_answer'', JStr ''True'')])]]
     ''out'' = Inl OSError \<and>
   always_mkdir ''out'' \<and>
   export_quiz_to_json summary_closed
     (JList [JDict [(''topic'', JStr ''Cells''), (''difficulty'', JStr ''Beginner''),
             (''true_false'', JDict [(''question'', JStr ''Cells divide.''),
                                     (''correct_answer'', JStr ''True'')])]])
     ''out/generated_quiz_20240101_120000.json'' =
     (True, Some (JsonFile
       (JList [JDict [(''topic'', JStr ''Cells''), (''difficulty'', JStr ''Beginner''),
             (''true_false'', JDict [(''question'', JStr ''Cells divide.''),
                                     (''correct_answer'', JStr ''True'')])]]))) \<and>
   create_quiz_package always_mkdir summary_only ''20240101_120000'' ''2024-01-01T12:00:00''
     [JDict [(''topic'', JStr ''Cells''), (''difficulty'', JStr ''Beginner''),
             (''true_false'', JDict [(''question'', JStr ''Cells divide.''),
                                     (''correct_answer'', JStr ''True'')])]]
     ''out'' = Inr ''out'' \<and>
   fst (export_quiz_to_json summary_only
     (JList [JDict [(''topic'', JStr ''Cells''), (''difficulty'', JStr ''Beginner''),
             (''true_false'', JDict [(''question'', JStr ''Cells divide.''),
                                     (''correct_answer'', JStr ''True'')])]])
     ''out/generated_quiz_20240101_120000.json'') = False"
  by (simp add: create_quiz_package_def os_path_join_def generate_quiz_summary_def
      export_quiz_to_json_def always_mkdir_def summary_closed_def summary_only_def
      dict_get_def question_types_def has_key_def Let_def)

end
